theory Spec2Isabelle
  imports Main
begin

text \<open>
  Hekabrain WatchDog: a supervisor that launches a target program, restarts it after
  crashes with exponential backoff and a limit on crashes per time window, and gathers
  the target's output and log files in a bounded buffer.

  The two classes of the main process are embedded as state-passing functions on
  records: \<open>LogReader\<close> (src/main/log-reader.ts) and \<open>WatchdogManager\<close>
  (src/main/watchdog-manager.ts). A method takes the state and returns the new one;
  what it reads from the world (the clock, the pid of a spawned child, an exit code)
  is an argument; what it publishes or does to the world is appended to a trace in the
  state. A handler runs to its end without interruption and reads the clock once.
  Numbers are integers. The file tailer's polling, the HTTP probe and the memory query
  are outside the model: their results enter as arguments.
\<close>

section \<open>JavaScript strings and arrays\<close>

text \<open>
  A JavaScript string is modelled as a \<^typ>\<open>string\<close>: one \<^typ>\<open>char\<close> per code unit,
  for code units below 256. All needles the program searches for are ASCII, and below
  256 only the upper-case letters change under \<open>toLowerCase\<close>.
\<close>

definition toLowerChar :: "char \<Rightarrow> char" where
  "toLowerChar c =
     (let n = of_char c :: nat
      in if (65 \<le> n \<and> n \<le> 90) \<or> (192 \<le> n \<and> n \<le> 222 \<and> n \<noteq> 215)
         then char_of (n + 32) else c)"

definition toLowerCase :: "string \<Rightarrow> string" where
  "toLowerCase s = map toLowerChar s"

text \<open>\<open>s.startsWith(n)\<close> and \<open>s.includes(n)\<close>.\<close>

fun startsWith :: "string \<Rightarrow> string \<Rightarrow> bool" where
  "startsWith s [] = True"
| "startsWith [] (c # n) = False"
| "startsWith (d # s) (c # n) = (d = c \<and> startsWith s n)"

fun includesStr :: "string \<Rightarrow> string \<Rightarrow> bool" where
  "includesStr [] n = (n = [])"
| "includesStr (d # s) n = (startsWith (d # s) n \<or> includesStr s n)"

text \<open>
  The white space that \<open>trim()\<close> removes, below code unit 256: TAB, LF, VT, FF, CR,
  SPACE and NBSP. \<open>line.trim()\<close> is truthy when some character is left.
\<close>

definition isWhiteSpace :: "char \<Rightarrow> bool" where
  "isWhiteSpace c = (of_char c \<in> {9, 10, 11, 12, 13, 32, 160 :: nat})"

definition trimTruthy :: "string \<Rightarrow> bool" where
  "trimTruthy line = list_ex (\<lambda>c. \<not> isWhiteSpace c) line"

text \<open>
  \<open>s.split('\n')\<close>: the pieces between line feeds; a string without line feed, also the
  empty one, is one piece.
\<close>

fun splitNewline :: "string \<Rightarrow> string list" where
  "splitNewline [] = [[]]"
| "splitNewline (c # s) =
     (if c = CHR 0x0A then [] # splitNewline s
      else (case splitNewline s of
              [] \<Rightarrow> [[c]]
            | piece # pieces \<Rightarrow> (c # piece) # pieces))"

text \<open>
  \<open>xs.slice(start)\<close> with one argument: a negative \<open>start\<close> counts from the end, and the
  start index is clamped to the array.
\<close>

definition slice :: "int \<Rightarrow> 'a list \<Rightarrow> 'a list" where
  "slice start xs =
     (let len = int (length xs);
          k = (if start < 0 then max (len + start) 0 else min start len)
      in drop (nat k) xs)"

section \<open>The log reader (src/main/log-reader.ts)\<close>

datatype LogLevel = LInfo | LWarning | LError | LDebug

datatype LogCategory = Console | Network | Renderer | Security | System | Ipc | Performance

datatype LogSource = Stdout | Stderr | File

record WatchdogLogEntry =
  le_timestamp :: int
  le_level :: LogLevel
  le_category :: LogCategory
  le_message :: string
  le_source :: LogSource

text \<open>The string each category is in the program (\<open>l.category === category\<close> compares strings).\<close>

fun categoryName :: "LogCategory \<Rightarrow> string" where
  "categoryName Console = ''console''"
| "categoryName Network = ''network''"
| "categoryName Renderer = ''renderer''"
| "categoryName Security = ''security''"
| "categoryName System = ''system''"
| "categoryName Ipc = ''ipc''"
| "categoryName Performance = ''performance''"

text \<open>
  The reader: the buffer \<open>logs\<close>, its bound \<open>maxLogs\<close> and, in \<open>logEvents\<close>, the
  \<open>log\<close> events emitted so far, oldest first.
\<close>

record LogReader =
  logs :: "WatchdogLogEntry list"
  maxLogs :: nat
  logEvents :: "WatchdogLogEntry list"

definition newLogReader :: LogReader where
  "newLogReader = \<lparr>logs = [], maxLogs = 5000, logEvents = []\<rparr>"

text \<open>\<open>parseLine\<close>: level and category of a line read from a watched file.\<close>

definition parseLevel :: "string \<Rightarrow> LogLevel" where
  "parseLevel lower =
     (if includesStr lower ''[error]'' \<or> includesStr lower ''error:'' \<or> includesStr lower ''uncaught''
         \<or> includesStr lower ''exception'' then LError
      else if includesStr lower ''[warn'' \<or> includesStr lower ''warning'' then LWarning
      else if includesStr lower ''[debug]'' then LDebug
      else LInfo)"

definition parseCategory :: "string \<Rightarrow> LogCategory \<Rightarrow> LogCategory" where
  "parseCategory lower defaultCategory =
     (if includesStr lower ''[network]'' \<or> includesStr lower ''fetch'' \<or> includesStr lower ''http''
      then Network
      else if includesStr lower ''[renderer]'' \<or> includesStr lower ''[browser]'' then Renderer
      else if includesStr lower ''[security]'' \<or> includesStr lower ''cors'' \<or> includesStr lower ''csp''
      then Security
      else if includesStr lower ''[ipc]'' then Ipc
      else if includesStr lower ''[performance]'' \<or> includesStr lower ''memory''
         \<or> includesStr lower ''cpu'' then Performance
      else defaultCategory)"

definition parseLine :: "int \<Rightarrow> string \<Rightarrow> LogCategory \<Rightarrow> WatchdogLogEntry" where
  "parseLine now line defaultCategory =
     (let lower = toLowerCase line
      in \<lparr>le_timestamp = now, le_level = parseLevel lower,
          le_category = parseCategory lower defaultCategory,
          le_message = line, le_source = File\<rparr>)"

text \<open>One turn of a loop body: \<open>this.logs.push(entry); this.emit('log', entry)\<close>.\<close>

definition pushEntry :: "WatchdogLogEntry \<Rightarrow> LogReader \<Rightarrow> LogReader" where
  "pushEntry entry r = r\<lparr>logs := logs r @ [entry], logEvents := logEvents r @ [entry]\<rparr>"

text \<open>The trim after the loop: \<open>if (logs.length > maxLogs) logs = logs.slice(-maxLogs)\<close>.\<close>

definition trimLogs :: "LogReader \<Rightarrow> LogReader" where
  "trimLogs r =
     (if length (logs r) > maxLogs r then r\<lparr>logs := slice (- int (maxLogs r)) (logs r)\<rparr>
      else r)"

text \<open>\<open>processNewContent\<close>: the bytes the tailer has read from a watched file.\<close>

fun processLines :: "int \<Rightarrow> LogCategory \<Rightarrow> string list \<Rightarrow> LogReader \<Rightarrow> LogReader" where
  "processLines now category [] r = r"
| "processLines now category (line # lines) r =
     processLines now category lines (pushEntry (parseLine now line category) r)"

definition processNewContent :: "int \<Rightarrow> string \<Rightarrow> LogCategory \<Rightarrow> LogReader \<Rightarrow> LogReader" where
  "processNewContent now content category r =
     trimLogs (processLines now category (filter trimTruthy (splitNewline content)) r)"

text \<open>\<open>addDirectLog\<close>: a chunk of the child's stdout or stderr.\<close>

definition directLevel :: "LogSource \<Rightarrow> string \<Rightarrow> LogLevel" where
  "directLevel source lower =
     (let level = (if source = Stderr then LError else LInfo)
      in if source = Stdout then
           (if includesStr lower ''error'' then LError
            else if includesStr lower ''warn'' then LWarning
            else if includesStr lower ''debug'' then LDebug
            else level)
         else level)"

definition directEntry :: "int \<Rightarrow> LogSource \<Rightarrow> string \<Rightarrow> WatchdogLogEntry" where
  "directEntry now source line =
     \<lparr>le_timestamp = now, le_level = directLevel source (toLowerCase line),
      le_category = Console, le_message = line, le_source = source\<rparr>"

fun directLines :: "int \<Rightarrow> LogSource \<Rightarrow> string list \<Rightarrow> LogReader \<Rightarrow> LogReader" where
  "directLines now source [] r = r"
| "directLines now source (line # lines) r =
     directLines now source lines (pushEntry (directEntry now source line) r)"

definition addDirectLog :: "int \<Rightarrow> string \<Rightarrow> LogSource \<Rightarrow> LogReader \<Rightarrow> LogReader" where
  "addDirectLog now message source r =
     trimLogs (directLines now source (filter trimTruthy (splitNewline message)) r)"

text \<open>
  \<open>getLogs(limit?, category?)\<close>: an omitted argument is \<open>None\<close>. \<open>if (category)\<close> is
  false for the empty string, \<open>if (limit)\<close> is false for 0.
\<close>

definition getLogs :: "int option \<Rightarrow> string option \<Rightarrow> LogReader \<Rightarrow> WatchdogLogEntry list" where
  "getLogs limit category r =
     (let filtered = (case category of
                        None \<Rightarrow> logs r
                      | Some c \<Rightarrow> if c = [] then logs r
                                  else filter (\<lambda>l. categoryName (le_category l) = c) (logs r));
          filtered = (case limit of
                        None \<Rightarrow> filtered
                      | Some n \<Rightarrow> if n = 0 then filtered else slice (- n) filtered)
      in filtered)"

definition clearLogs :: "LogReader \<Rightarrow> LogReader" where
  "clearLogs r = r\<lparr>logs := []\<rparr>"

section \<open>The supervisor (src/main/watchdog-manager.ts)\<close>

subsection \<open>Shared types\<close>

datatype WatchdogStatusType = Idle | Running | Crashed | Restarting | Stopped | Max_restarts

datatype WatchdogLaunchMode = Dev | Production

record WatchdogConfig =
  targetExePath :: string
  targetDevPath :: string
  mode :: WatchdogLaunchMode
  autoRestart :: bool
  maxRestarts :: int
  restartWindowMs :: int
  healthCheckPort :: int
  healthCheckIntervalMs :: int

record WatchdogStatusInfo =
  si_status :: WatchdogStatusType
  si_mode :: WatchdogLaunchMode
  si_exePath :: string
  si_pid :: "int option"
  si_uptimeMs :: int
  si_totalCrashes :: nat
  si_recentCrashes :: nat
  si_backoffMs :: int
  si_lastHealthCheck :: "int option"
  si_healthCheckOk :: bool
  si_memory :: "int option"
  si_cpu :: "int option"

record WatchdogCrashEntry =
  ce_timestamp :: int
  ce_exitCode :: "int option"
  ce_signal :: "string option"
  ce_uptimeMs :: int
  ce_stderr :: string

definition DEFAULT_CONFIG :: WatchdogConfig where
  "DEFAULT_CONFIG =
     \<lparr>targetExePath = [], targetDevPath = [], mode = Dev, autoRestart = True,
      maxRestarts = 5, restartWindowMs = 5 * 60 * 1000, healthCheckPort = 3001,
      healthCheckIntervalMs = 10000\<rparr>"

subsection \<open>Events, effects and the state of the manager\<close>

text \<open>
  What the manager publishes with \<open>this.emit\<close>, and what it does to the world. The trace
  of both is kept in the state, oldest first, so that the order of an event and a spawn
  can be read off. Console output is not part of the trace.
\<close>

datatype event =
    StatusChanged WatchdogStatusInfo
  | Crash WatchdogCrashEntry
  | MaxRestarts
  | ErrorEvent string
  | StdoutData string
  | StderrData string

datatype effect =
    Emit event
  | Spawn string "string list" string
  | SetTimeout int
  | ClearTimeout
  | Kill string
  | SaveConfig
  | SaveCrashLog

text \<open>
  The handle that \<open>spawn\<close> returns. Node returns a handle also when the operating system
  could not start the program; its \<open>pid\<close> is then undefined and the handle emits
  \<open>error\<close>, not \<open>exit\<close>.
\<close>

datatype ChildProcess = ChildProcess (childPid: "int option")

text \<open>
  The fields of the class. A timer field holds the delay or period of the armed timer.
  \<open>errorListener\<close> is the part of the inherited \<open>EventEmitter\<close> that matters: whether
  the host has registered a listener for \<open>error\<close>. Node's \<open>emit('error', x)\<close> throws when
  there is none; src/main/index.ts registers none.
\<close>

record WatchdogManager =
  config :: WatchdogConfig
  childProcess :: "ChildProcess option"
  status :: WatchdogStatusType
  pid :: "int option"
  startTime :: int
  crashLog :: "WatchdogCrashEntry list"
  recentCrashTimestamps :: "int list"
  backoffMs :: int
  restartTimer :: "int option"
  healthCheckTimer :: "int option"
  lastHealthCheck :: "int option"
  healthCheckOk :: bool
  stderrBuffer :: string
  memoryUsage :: "int option"
  cpuUsage :: "int option"
  resourceTimer :: "int option"
  errorListener :: bool
  effects :: "effect list"

text \<open>
  A new manager. The constructor takes \<open>DEFAULT_CONFIG\<close>; the parameter stands for the
  configuration the manager has when supervision begins.
\<close>

definition newWatchdogManager :: "WatchdogConfig \<Rightarrow> WatchdogManager" where
  "newWatchdogManager cfg =
     \<lparr>config = cfg, childProcess = None, status = Idle, pid = None, startTime = 0,
      crashLog = [], recentCrashTimestamps = [], backoffMs = 1000, restartTimer = None,
      healthCheckTimer = None, lastHealthCheck = None, healthCheckOk = False,
      stderrBuffer = [], memoryUsage = None, cpuUsage = None, resourceTimer = None,
      errorListener = False, effects = []\<rparr>"

text \<open>\<open>manager.on('error', listener)\<close>, for a host that registers one.\<close>

definition onError :: "WatchdogManager \<Rightarrow> WatchdogManager" where
  "onError s = s\<lparr>errorListener := True\<rparr>"

text \<open>
  How an asynchronous method ends: it returns, or its promise is rejected. \<open>Threw\<close>
  carries the value that was passed to \<open>emit('error', ...)\<close>, which Node wraps in its
  error for an unhandled \<open>error\<close> event.
\<close>

datatype completion = Returned | Threw string

definition perform :: "effect \<Rightarrow> WatchdogManager \<Rightarrow> WatchdogManager" where
  "perform e s = s\<lparr>effects := effects s @ [e]\<rparr>"

definition emit :: "event \<Rightarrow> WatchdogManager \<Rightarrow> WatchdogManager" where
  "emit e s = perform (Emit e) s"

subsection \<open>Queries\<close>

text \<open>Each method reads the clock; \<open>now\<close> is what \<open>Date.now()\<close> returns during the call.\<close>

definition getStatus :: "int \<Rightarrow> WatchdogManager \<Rightarrow> WatchdogStatusInfo" where
  "getStatus now s =
     \<lparr>si_status = status s,
      si_mode = mode (config s),
      si_exePath = (if mode (config s) = Production then targetExePath (config s)
                    else targetDevPath (config s)),
      si_pid = pid s,
      si_uptimeMs = (if startTime s > 0 then now - startTime s else 0),
      si_totalCrashes = length (crashLog s),
      si_recentCrashes = length (recentCrashTimestamps s),
      si_backoffMs = backoffMs s,
      si_lastHealthCheck = lastHealthCheck s,
      si_healthCheckOk = healthCheckOk s,
      si_memory = memoryUsage s,
      si_cpu = cpuUsage s\<rparr>"

definition getCrashLog :: "WatchdogManager \<Rightarrow> WatchdogCrashEntry list" where
  "getCrashLog s = crashLog s"

definition getConfig :: "WatchdogManager \<Rightarrow> WatchdogConfig" where
  "getConfig s = config s"

definition setStatus :: "WatchdogStatusType \<Rightarrow> int \<Rightarrow> WatchdogManager \<Rightarrow> WatchdogManager" where
  "setStatus st now s =
     (let s1 = s\<lparr>status := st\<rparr> in emit (StatusChanged (getStatus now s1)) s1)"

subsection \<open>Timers of the health probe and the resource sampler\<close>

definition stopHealthCheck :: "WatchdogManager \<Rightarrow> WatchdogManager" where
  "stopHealthCheck s = (if healthCheckTimer s \<noteq> None then s\<lparr>healthCheckTimer := None\<rparr> else s)"

definition startHealthCheck :: "WatchdogManager \<Rightarrow> WatchdogManager" where
  "startHealthCheck s =
     (let s1 = stopHealthCheck s
      in s1\<lparr>healthCheckTimer := Some (healthCheckIntervalMs (config s1))\<rparr>)"

definition stopResourceMonitor :: "WatchdogManager \<Rightarrow> WatchdogManager" where
  "stopResourceMonitor s =
     (let s1 = (if resourceTimer s \<noteq> None then s\<lparr>resourceTimer := None\<rparr> else s)
      in s1\<lparr>memoryUsage := None, cpuUsage := None\<rparr>)"

definition startResourceMonitor :: "WatchdogManager \<Rightarrow> WatchdogManager" where
  "startResourceMonitor s =
     (let s1 = stopResourceMonitor s in s1\<lparr>resourceTimer := Some 5000\<rparr>)"

subsection \<open>Starting the child\<close>

definition attachProcessListeners :: "WatchdogManager \<Rightarrow> WatchdogManager" where
  "attachProcessListeners s =
     (case childProcess s of
        None \<Rightarrow> s
      | Some proc \<Rightarrow> s\<lparr>pid := childPid proc\<rparr>)"

text \<open>
  \<open>spawnPid\<close> is the process id the operating system gives the new child, \<open>None\<close> when
  it could not start the program.
\<close>

definition startDevMode :: "int \<Rightarrow> int option \<Rightarrow> WatchdogManager \<Rightarrow> completion \<times> WatchdogManager" where
  "startDevMode now spawnPid s =
     (let devPath = targetDevPath (config s)
      in if devPath = [] then
           (if errorListener s
            then (Returned, setStatus Stopped now (emit (ErrorEvent ''No dev path configured'') s))
            else (Threw ''No dev path configured'', s))
         else
           (Returned,
            attachProcessListeners
              ((perform (Spawn ''npx'' [''electron-vite'', ''dev''] devPath) s)
                 \<lparr>childProcess := Some (ChildProcess spawnPid)\<rparr>)))"

definition startProductionMode :: "int \<Rightarrow> int option \<Rightarrow> WatchdogManager \<Rightarrow> completion \<times> WatchdogManager" where
  "startProductionMode now spawnPid s =
     (let exePath = targetExePath (config s)
      in if exePath = [] then
           (if errorListener s
            then (Returned, setStatus Stopped now (emit (ErrorEvent ''No exe path configured'') s))
            else (Threw ''No exe path configured'', s))
         else
           (Returned,
            attachProcessListeners
              ((perform (Spawn exePath [] []) s)
                 \<lparr>childProcess := Some (ChildProcess spawnPid)\<rparr>)))"

definition start :: "WatchdogLaunchMode option \<Rightarrow> int \<Rightarrow> int option \<Rightarrow> WatchdogManager \<Rightarrow> completion \<times> WatchdogManager" where
  "start modeArg now spawnPid s =
     (if status s = Running then (Returned, s)
      else
        (let s1 = (case modeArg of
                     None \<Rightarrow> s
                   | Some m \<Rightarrow> perform SaveConfig (s\<lparr>config := (config s)\<lparr>mode := m\<rparr>\<rparr>));
             s2 = setStatus Running now s1;
             s3 = s2\<lparr>startTime := now, stderrBuffer := []\<rparr>;
             r = (if mode (config s3) = Dev then startDevMode now spawnPid s3
                  else startProductionMode now spawnPid s3)
         in case fst r of
              Threw msg \<Rightarrow> (Threw msg, snd r)
            | Returned \<Rightarrow> (Returned, startResourceMonitor (startHealthCheck (snd r)))))"

subsection \<open>The child's events\<close>

definition onStdoutData :: "string \<Rightarrow> WatchdogManager \<Rightarrow> WatchdogManager" where
  "onStdoutData text s = emit (StdoutData text) s"

definition onStderrData :: "string \<Rightarrow> WatchdogManager \<Rightarrow> WatchdogManager" where
  "onStderrData text s =
     (let buf = stderrBuffer s @ text;
          buf = (if length buf > 10240 then slice (- 10240) buf else buf)
      in emit (StderrData text) (s\<lparr>stderrBuffer := buf\<rparr>))"

definition onChildError :: "string \<Rightarrow> WatchdogManager \<Rightarrow> WatchdogManager" where
  "onChildError message s = emit (StderrData (''Process error: '' @ message)) s"

definition onProcessExit :: "int option \<Rightarrow> string option \<Rightarrow> int \<Rightarrow> WatchdogManager \<Rightarrow> WatchdogManager" where
  "onProcessExit code signal now s =
     (let s1 = (stopResourceMonitor (stopHealthCheck s))\<lparr>pid := None\<rparr>;
          uptimeMs = (if startTime s1 > 0 then now - startTime s1 else 0)
      in if code = Some 0 \<or> status s1 = Stopped then setStatus Stopped now s1
         else
           (let crash = \<lparr>ce_timestamp = now, ce_exitCode = code, ce_signal = signal,
                          ce_uptimeMs = uptimeMs,
                          ce_stderr = slice (- 2048) (stderrBuffer s1)\<rparr>;
                s2 = perform SaveCrashLog (s1\<lparr>crashLog := crashLog s1 @ [crash]\<rparr>);
                s3 = s2\<lparr>recentCrashTimestamps := recentCrashTimestamps s2 @ [now]\<rparr>;
                windowStart = now - restartWindowMs (config s3);
                s4 = s3\<lparr>recentCrashTimestamps :=
                          filter (\<lambda>t. t > windowStart) (recentCrashTimestamps s3)\<rparr>;
                s5 = setStatus Crashed now (emit (Crash crash) s4)
            in if \<not> autoRestart (config s5) then s5
               else if int (length (recentCrashTimestamps s5)) \<ge> maxRestarts (config s5)
               then emit MaxRestarts (setStatus Max_restarts now s5)
               else
                 (let s6 = (if uptimeMs > 60000 then s5\<lparr>backoffMs := 1000\<rparr> else s5);
                      s7 = setStatus Restarting now s6;
                      s8 = perform (SetTimeout (backoffMs s7))
                             (s7\<lparr>restartTimer := Some (backoffMs s7)\<rparr>)
                  in s8\<lparr>backoffMs := min (backoffMs s8 * 2) 30000\<rparr>)))"

text \<open>The callback of the restart timer: \<open>this.restartTimer = null; await this.start()\<close>.\<close>

definition onRestartTimer :: "int \<Rightarrow> int option \<Rightarrow> WatchdogManager \<Rightarrow> completion \<times> WatchdogManager" where
  "onRestartTimer now spawnPid s = start None now spawnPid (s\<lparr>restartTimer := None\<rparr>)"

text \<open>The callback of the health timer, once the probe has answered or failed.\<close>

definition onHealthCheck :: "bool \<Rightarrow> int \<Rightarrow> WatchdogManager \<Rightarrow> WatchdogManager" where
  "onHealthCheck ok now s = s\<lparr>healthCheckOk := ok, lastHealthCheck := Some now\<rparr>"

text \<open>
  The callback of the resource timer: nothing without a pid, otherwise the memory that
  the query found, \<open>None\<close> when it failed.
\<close>

definition onResourceSample :: "int option \<Rightarrow> WatchdogManager \<Rightarrow> WatchdogManager" where
  "onResourceSample sample s =
     (if pid s = None \<or> pid s = Some 0 then s else s\<lparr>memoryUsage := sample\<rparr>)"

subsection \<open>Stopping and restarting\<close>

text \<open>
  \<open>killProcess\<close> sends SIGTERM and forgets the handle; the promise it returns is settled
  by the child's exit, which arrives as an event of its own, or after 5 s by a timer
  that sends SIGKILL and touches no field of the manager.
\<close>

definition killProcess :: "WatchdogManager \<Rightarrow> WatchdogManager" where
  "killProcess s =
     (case childProcess s of
        None \<Rightarrow> s
      | Some proc \<Rightarrow> (perform (Kill ''SIGTERM'') s)\<lparr>childProcess := None\<rparr>)"

definition stop :: "int \<Rightarrow> WatchdogManager \<Rightarrow> WatchdogManager" where
  "stop now s =
     (let s1 = setStatus Stopped now s;
          s2 = (if restartTimer s1 \<noteq> None
                then (perform ClearTimeout s1)\<lparr>restartTimer := None\<rparr> else s1);
          s3 = stopResourceMonitor (stopHealthCheck s2)
      in if childProcess s3 \<noteq> None then killProcess s3 else s3)"

text \<open>
  \<open>restart\<close> awaits \<open>stop\<close>. When a child was killed, its exit is observed during that
  wait: \<open>exitSeen\<close> is the exit code, the signal and the time of that exit, \<open>None\<close>
  when there was no child or the wait ran out. \<open>now\<close> is the time when \<open>restart\<close> goes on.
\<close>

definition restart :: "int \<Rightarrow> (int option \<times> string option \<times> int) option \<Rightarrow> int \<Rightarrow> int option
    \<Rightarrow> WatchdogManager \<Rightarrow> completion \<times> WatchdogManager" where
  "restart stopTime exitSeen now spawnPid s =
     (let s1 = stop stopTime s;
          s2 = (case exitSeen of
                  None \<Rightarrow> s1
                | Some (code, signal, t) \<Rightarrow> onProcessExit code signal t s1);
          s3 = s2\<lparr>backoffMs := 1000, recentCrashTimestamps := []\<rparr>
      in start None now spawnPid s3)"

subsection \<open>Configuration and crash history\<close>

text \<open>A \<open>Partial<WatchdogConfig>\<close>: the fields that are present.\<close>

record ConfigPatch =
  p_targetExePath :: "string option"
  p_targetDevPath :: "string option"
  p_mode :: "WatchdogLaunchMode option"
  p_autoRestart :: "bool option"
  p_maxRestarts :: "int option"
  p_restartWindowMs :: "int option"
  p_healthCheckPort :: "int option"
  p_healthCheckIntervalMs :: "int option"

definition orElse :: "'a option \<Rightarrow> 'a \<Rightarrow> 'a" where
  "orElse v d = (case v of None \<Rightarrow> d | Some x \<Rightarrow> x)"

definition mergeConfig :: "WatchdogConfig \<Rightarrow> ConfigPatch \<Rightarrow> WatchdogConfig" where
  "mergeConfig c u =
     \<lparr>targetExePath = orElse (p_targetExePath u) (targetExePath c),
      targetDevPath = orElse (p_targetDevPath u) (targetDevPath c),
      mode = orElse (p_mode u) (mode c),
      autoRestart = orElse (p_autoRestart u) (autoRestart c),
      maxRestarts = orElse (p_maxRestarts u) (maxRestarts c),
      restartWindowMs = orElse (p_restartWindowMs u) (restartWindowMs c),
      healthCheckPort = orElse (p_healthCheckPort u) (healthCheckPort c),
      healthCheckIntervalMs = orElse (p_healthCheckIntervalMs u) (healthCheckIntervalMs c)\<rparr>"

definition updateConfig :: "ConfigPatch \<Rightarrow> WatchdogManager \<Rightarrow> WatchdogManager" where
  "updateConfig updates s = perform SaveConfig (s\<lparr>config := mergeConfig (config s) updates\<rparr>)"

text \<open>
  \<open>initialize\<close> reads the two files: the saved configuration over the defaults, and the
  saved crash history. \<open>None\<close> is a file that is absent or cannot be read.
\<close>

definition initialize :: "ConfigPatch option \<Rightarrow> WatchdogCrashEntry list option \<Rightarrow> WatchdogManager
    \<Rightarrow> WatchdogManager" where
  "initialize savedConfig savedCrashes s =
     (let s1 = (case savedConfig of
                  None \<Rightarrow> s
                | Some saved \<Rightarrow> s\<lparr>config := mergeConfig DEFAULT_CONFIG saved\<rparr>)
      in case savedCrashes of
           None \<Rightarrow> s1
         | Some entries \<Rightarrow> s1\<lparr>crashLog := entries\<rparr>)"

definition clearCrashLog :: "WatchdogManager \<Rightarrow> WatchdogManager" where
  "clearCrashLog s = perform SaveCrashLog (s\<lparr>crashLog := [], recentCrashTimestamps := []\<rparr>)"

subsection \<open>Runs of the supervisor\<close>

text \<open>
  Everything that can happen to the manager: a call of its interface, an event of a
  child, a timer, the host registering a listener for \<open>error\<close>. Each is handled to its
  end before the next (the handlers are synchronous between their awaits), and any
  order of inputs is a run: more orders than the operating system can produce, so
  what holds after every run holds after every real one. \<open>buildAndRun\<close> acts on the
  manager as \<open>stop\<close> followed, when the build succeeds, by \<open>start('production')\<close>, so
  its runs are among these.
\<close>

datatype input =
    CallStart "WatchdogLaunchMode option" int "int option"
  | CallStop int
  | CallRestart int "(int option \<times> string option \<times> int) option" int "int option"
  | CallUpdateConfig ConfigPatch
  | CallClearCrashLog
  | ChildExit "int option" "string option" int
  | ChildStdout string
  | ChildStderr string
  | ChildError string
  | RestartTimerFires int "int option"
  | HealthCheckDone bool int
  | ResourceSampled "int option"
  | CallInitialize "ConfigPatch option" "WatchdogCrashEntry list option"
  | RegisterErrorListener

fun step :: "WatchdogManager \<Rightarrow> input \<Rightarrow> WatchdogManager" where
  "step s (CallStart modeArg now spawnPid) = snd (start modeArg now spawnPid s)"
| "step s (CallStop now) = stop now s"
| "step s (CallRestart stopTime exitSeen now spawnPid) =
     snd (restart stopTime exitSeen now spawnPid s)"
| "step s (CallUpdateConfig updates) = updateConfig updates s"
| "step s (CallClearCrashLog) = clearCrashLog s"
| "step s (ChildExit code signal now) = onProcessExit code signal now s"
| "step s (ChildStdout text) = onStdoutData text s"
| "step s (ChildStderr text) = onStderrData text s"
| "step s (ChildError message) = onChildError message s"
| "step s (RestartTimerFires now spawnPid) =
     (if restartTimer s = None then s else snd (onRestartTimer now spawnPid s))"
| "step s (HealthCheckDone ok now) = onHealthCheck ok now s"
| "step s (ResourceSampled sample) = onResourceSample sample s"
| "step s (CallInitialize savedConfig savedCrashes) = initialize savedConfig savedCrashes s"
| "step s RegisterErrorListener = onError s"

definition run :: "WatchdogManager \<Rightarrow> input list \<Rightarrow> WatchdogManager" where
  "run s inputs = foldl step s inputs"

text \<open>The clock readings of an input; the clock shows milliseconds since 1970.\<close>

fun clockReadings :: "input \<Rightarrow> int list" where
  "clockReadings (CallStart modeArg now spawnPid) = [now]"
| "clockReadings (CallStop now) = [now]"
| "clockReadings (CallRestart stopTime exitSeen now spawnPid) =
     stopTime # now # (case exitSeen of None \<Rightarrow> [] | Some (code, signal, t) \<Rightarrow> [t])"
| "clockReadings (ChildExit code signal now) = [now]"
| "clockReadings (RestartTimerFires now spawnPid) = [now]"
| "clockReadings (HealthCheckDone ok now) = [now]"
| "clockReadings i = []"

definition clockPositive :: "input list \<Rightarrow> bool" where
  "clockPositive inputs = list_all (\<lambda>i. list_all (\<lambda>t. 0 < t) (clockReadings i)) inputs"

section \<open>Runs of the log reader\<close>

text \<open>
  The two ways entries get into the buffer: a chunk of the child's output, and a piece
  of a watched file that the tailer has read. \<open>pushedBy\<close> lists the entries an
  operation pushes, in the order of the pushes.
\<close>

datatype push = DirectPush int string LogSource | TailerRead int string LogCategory

fun applyPush :: "LogReader \<Rightarrow> push \<Rightarrow> LogReader" where
  "applyPush r (DirectPush now message source) = addDirectLog now message source r"
| "applyPush r (TailerRead now content category) = processNewContent now content category r"

fun pushedBy :: "push \<Rightarrow> WatchdogLogEntry list" where
  "pushedBy (DirectPush now message source) =
     map (directEntry now source) (filter trimTruthy (splitNewline message))"
| "pushedBy (TailerRead now content category) =
     map (\<lambda>line. parseLine now line category) (filter trimTruthy (splitNewline content))"

definition pushHistory :: "push list \<Rightarrow> WatchdogLogEntry list" where
  "pushHistory ops = concat (map pushedBy ops)"

definition mostRecent :: "nat \<Rightarrow> 'a list \<Rightarrow> 'a list" where
  "mostRecent n xs = drop (length xs - n) xs"

text \<open>
  The classification as section 4.2 of the specification words it, to compare with what a
  direct push does: the level rules, with stderr fixed to error, and the category
  override with the default of the source.
\<close>

definition specLevel :: "LogSource \<Rightarrow> string \<Rightarrow> LogLevel" where
  "specLevel source lower =
     (if source = Stderr then LError
      else if includesStr lower ''[error]'' \<or> includesStr lower ''error:''
           \<or> includesStr lower ''uncaught'' \<or> includesStr lower ''exception'' then LError
      else if includesStr lower ''[warn'' \<or> includesStr lower ''warning'' then LWarning
      else if includesStr lower ''[debug]'' then LDebug
      else LInfo)"

definition specCategory :: "string \<Rightarrow> LogCategory \<Rightarrow> LogCategory" where
  "specCategory lower sourceDefault =
     (if includesStr lower ''[network]'' \<or> includesStr lower ''fetch'' \<or> includesStr lower ''http''
      then Network
      else if includesStr lower ''[renderer]'' \<or> includesStr lower ''[browser]'' then Renderer
      else if includesStr lower ''[security]'' \<or> includesStr lower ''cors''
           \<or> includesStr lower ''csp'' then Security
      else if includesStr lower ''[ipc]'' then Ipc
      else if includesStr lower ''[performance]'' \<or> includesStr lower ''memory''
           \<or> includesStr lower ''cpu'' then Performance
      else sourceDefault)"

text \<open>The \<open>log\<close> events an operation has emitted.\<close>

definition newEvents :: "LogReader \<Rightarrow> LogReader \<Rightarrow> WatchdogLogEntry list" where
  "newEvents before after = drop (length (logEvents before)) (logEvents after)"

text \<open>\<open>pieces.join('\n')\<close>, the inverse of the split.\<close>

fun joinNewline :: "string list \<Rightarrow> string" where
  "joinNewline [] = []"
| "joinNewline [piece] = piece"
| "joinNewline (piece # pieces) = piece @ CHR 0x0A # joinNewline pieces"

text \<open>A reader after one chunk of stdout and one tailer read.\<close>

definition threeLogs :: LogReader where
  "threeLogs = applyPush (applyPush newLogReader (DirectPush 1000 ''one\<newline>fetch two'' Stdout))
                 (TailerRead 2000 ''fetch three\<newline>four [network]'' System)"

section \<open>Reading the trace, and the crash scenario\<close>

text \<open>
  What a trace holds: the delays of the restart timers armed, the crash events, the
  statuses of the status-changed events, the number of spawns.
\<close>

fun delayOf :: "effect \<Rightarrow> int list" where
  "delayOf (SetTimeout delay) = [delay]"
| "delayOf e = []"

fun crashOf :: "effect \<Rightarrow> WatchdogCrashEntry list" where
  "crashOf (Emit (Crash entry)) = [entry]"
| "crashOf e = []"

fun statusOf :: "effect \<Rightarrow> WatchdogStatusType list" where
  "statusOf (Emit (StatusChanged info)) = [si_status info]"
| "statusOf e = []"

fun isSpawn :: "effect \<Rightarrow> bool" where
  "isSpawn (Spawn command args cwd) = True"
| "isSpawn e = False"

definition scheduledDelays :: "effect list \<Rightarrow> int list" where
  "scheduledDelays es = concat (map delayOf es)"

definition crashEvents :: "effect list \<Rightarrow> WatchdogCrashEntry list" where
  "crashEvents es = concat (map crashOf es)"

definition statusChanges :: "effect list \<Rightarrow> WatchdogStatusType list" where
  "statusChanges es = concat (map statusOf es)"

definition spawnCount :: "effect list \<Rightarrow> nat" where
  "spawnCount es = length (filter isSpawn es)"

text \<open>
  The target of scenario 1: every child exits with code 1, 500 ms after its start. The
  supervisor is started at \<open>now\<close> (\<open>crashCycle\<close> is one start and the exit that follows);
  when the exit handler has armed the restart timer, the timer fires after its delay and
  starts the next child, as \<open>onRestartTimer\<close> does. \<open>fuel\<close> bounds the number
  of children; the result is \<open>None\<close> when the fuel ends before the supervisor has given up.
\<close>

definition crashCycle :: "int \<Rightarrow> int \<Rightarrow> WatchdogManager \<Rightarrow> WatchdogManager" where
  "crashCycle now nextPid s =
     onProcessExit (Some 1) None (now + 500) (snd (start None now (Some nextPid) s))"

fun crashLoop :: "nat \<Rightarrow> int \<Rightarrow> int \<Rightarrow> WatchdogManager \<Rightarrow> WatchdogManager option" where
  "crashLoop 0 now nextPid s = None"
| "crashLoop (Suc fuel) now nextPid s =
     (let s2 = crashCycle now nextPid s
      in case restartTimer s2 of
           None \<Rightarrow> Some s2
         | Some delay \<Rightarrow>
             crashLoop fuel (now + 500 + delay) (nextPid + 1) (s2\<lparr>restartTimer := None\<rparr>))"

text \<open>The configuration of scenario 1: the defaults, with a project to run.\<close>

definition scenarioConfig :: WatchdogConfig where
  "scenarioConfig = DEFAULT_CONFIG\<lparr>targetDevPath := ''/project''\<rparr>"

text \<open>
  The timestamps of \<open>ts\<close> that lie within the last \<open>window\<close> milliseconds at time
  \<open>now\<close>, and the uptime the exit handler computes.
\<close>

definition withinWindow :: "int \<Rightarrow> int \<Rightarrow> int list \<Rightarrow> int list" where
  "withinWindow window now ts = filter (\<lambda>t. now - window < t) ts"

definition uptimeAt :: "int \<Rightarrow> WatchdogManager \<Rightarrow> int" where
  "uptimeAt now s = (if startTime s > 0 then now - startTime s else 0)"

text \<open>The rungs of the backoff ladder.\<close>

definition ladder :: "int set" where
  "ladder = {1000, 2000, 4000, 8000, 16000, 30000}"

text \<open>
  The parts of \<open>onProcessExit\<close>, to state what each of its branches does: the cleanup
  at its head, the bookkeeping of a crash up to \<open>setStatus('crashed')\<close>, and the
  scheduling of the restart at its end.
\<close>

definition afterExit :: "WatchdogManager \<Rightarrow> WatchdogManager" where
  "afterExit s = (stopResourceMonitor (stopHealthCheck s))\<lparr>pid := None\<rparr>"

definition recordCrash :: "int option \<Rightarrow> string option \<Rightarrow> int \<Rightarrow> WatchdogManager \<Rightarrow> WatchdogManager" where
  "recordCrash code signal now s1 =
     (let uptimeMs = (if startTime s1 > 0 then now - startTime s1 else 0);
          crash = \<lparr>ce_timestamp = now, ce_exitCode = code, ce_signal = signal,
                    ce_uptimeMs = uptimeMs,
                    ce_stderr = slice (- 2048) (stderrBuffer s1)\<rparr>;
          s2 = perform SaveCrashLog (s1\<lparr>crashLog := crashLog s1 @ [crash]\<rparr>);
          s3 = s2\<lparr>recentCrashTimestamps := recentCrashTimestamps s2 @ [now]\<rparr>;
          windowStart = now - restartWindowMs (config s3);
          s4 = s3\<lparr>recentCrashTimestamps :=
                    filter (\<lambda>t. t > windowStart) (recentCrashTimestamps s3)\<rparr>
      in setStatus Crashed now (emit (Crash crash) s4))"

definition scheduleRestart :: "int \<Rightarrow> int \<Rightarrow> WatchdogManager \<Rightarrow> WatchdogManager" where
  "scheduleRestart now uptimeMs s5 =
     (let s6 = (if uptimeMs > 60000 then s5\<lparr>backoffMs := 1000\<rparr> else s5);
          s7 = setStatus Restarting now s6;
          s8 = perform (SetTimeout (backoffMs s7)) (s7\<lparr>restartTimer := Some (backoffMs s7)\<rparr>)
      in s8\<lparr>backoffMs := min (backoffMs s8 * 2) 30000\<rparr>)"

text \<open>
  What links the status to the start time: a running supervisor has read the clock at
  its start, an idle one has never started.
\<close>

definition upInv :: "WatchdogManager \<Rightarrow> bool" where
  "upInv s = ((status s = Running \<longrightarrow> 0 < startTime s) \<and> (status s = Idle \<longrightarrow> startTime s = 0))"

text \<open>The status snapshots in a trace, and the effects one state has more than another.\<close>

fun infoOf :: "effect \<Rightarrow> WatchdogStatusInfo list" where
  "infoOf (Emit (StatusChanged info)) = [info]"
| "infoOf e = []"

definition statusInfos :: "effect list \<Rightarrow> WatchdogStatusInfo list" where
  "statusInfos es = concat (map infoOf es)"

definition effectsSince :: "WatchdogManager \<Rightarrow> WatchdogManager \<Rightarrow> effect list" where
  "effectsSince before after = drop (length (effects before)) (effects after)"

text \<open>
  Concrete runs, for evaluation: a supervisor started once; one started and stopped; one
  whose child crashed once and was restarted; and, with \<open>maxRestarts = 2\<close>, one whose
  second child is running.
\<close>

definition runningManager :: WatchdogManager where
  "runningManager = snd (start None 1000000 (Some 4242) (newWatchdogManager scenarioConfig))"

definition stoppedAfterRun :: WatchdogManager where
  "stoppedAfterRun =
     run (newWatchdogManager scenarioConfig) [CallStart None 1000000 (Some 4242), CallStop 1002000]"

definition recoveredManager :: WatchdogManager where
  "recoveredManager =
     run (newWatchdogManager scenarioConfig)
       [CallStart None 1000000 (Some 4242), ChildExit (Some 1) None 1000500,
        RestartTimerFires 1001500 (Some 4243)]"

definition twoCrashConfig :: WatchdogConfig where
  "twoCrashConfig = scenarioConfig\<lparr>maxRestarts := 2\<rparr>"

definition beforeSecondCrash :: WatchdogManager where
  "beforeSecondCrash =
     run (newWatchdogManager twoCrashConfig)
       [CallStart None 1000000 (Some 4242), ChildExit (Some 1) None 1000500,
        RestartTimerFires 1001500 (Some 4243)]"

text \<open>
  The mode \<open>start(mode)\<close> runs in, and the path it takes from the configuration for
  that mode.
\<close>

definition launchMode :: "WatchdogLaunchMode option \<Rightarrow> WatchdogManager \<Rightarrow> WatchdogLaunchMode" where
  "launchMode modeArg s = (case modeArg of None \<Rightarrow> mode (config s) | Some m \<Rightarrow> m)"

definition launchPath :: "WatchdogLaunchMode option \<Rightarrow> WatchdogManager \<Rightarrow> string" where
  "launchPath modeArg s =
     (if launchMode modeArg s = Dev then targetDevPath (config s) else targetExePath (config s))"




text \<open>Scenario 1 from time 1000000, with fuel for five children.\<close>

definition fiveFastCrashes :: "WatchdogManager option" where
  "fiveFastCrashes = crashLoop 5 1000000 4242 (newWatchdogManager scenarioConfig)"

text \<open>
  For runs: the time at which an input starts the child, if it does (a \<open>start\<close> that
  finds the supervisor running does nothing, a restart timer fires only when armed), and
  the time of the last such start in a run, \<open>t\<close> when there is none. And the list of
  recent crash timestamps that an input leaves, written from the list before it.
\<close>

fun startedAt :: "WatchdogManager \<Rightarrow> input \<Rightarrow> int option" where
  "startedAt s (CallStart modeArg now spawnPid) = (if status s = Running then None else Some now)"
| "startedAt s (CallRestart stopTime exitSeen now spawnPid) = Some now"
| "startedAt s (RestartTimerFires now spawnPid) =
     (if restartTimer s = None \<or> status s = Running then None else Some now)"
| "startedAt s i = None"

fun lastStart :: "int \<Rightarrow> WatchdogManager \<Rightarrow> input list \<Rightarrow> int" where
  "lastStart t s [] = t"
| "lastStart t s (i # inputs) =
     lastStart (case startedAt s i of None \<Rightarrow> t | Some t' \<Rightarrow> t') (step s i) inputs"

fun windowAfter :: "WatchdogManager \<Rightarrow> input \<Rightarrow> int list" where
  "windowAfter s (ChildExit code signal now) =
     (if code = Some 0 \<or> status s = Stopped then recentCrashTimestamps s
      else withinWindow (restartWindowMs (config s)) now (recentCrashTimestamps s @ [now]))"
| "windowAfter s (CallRestart stopTime exitSeen now spawnPid) = []"
| "windowAfter s CallClearCrashLog = []"
| "windowAfter s i = recentCrashTimestamps s"

section \<open>Properties of the log reader\<close>

lemma slice_neg: "0 < n \<Longrightarrow> slice (- int n) xs = drop (length xs - n) xs"
  by (auto simp: slice_def Let_def max_def nat_diff_distrib' intro: arg_cong2[where f=drop])

lemma slice_neg_int: "0 < n \<Longrightarrow> slice (- n) xs = drop (length xs - nat n) xs"
  using slice_neg[of "nat n" xs] by simp

lemma directLines_logs:
  "logs (directLines now source ls r) = logs r @ map (directEntry now source) ls"
  by (induction ls arbitrary: r) (simp_all add: pushEntry_def)

lemma directLines_maxLogs: "maxLogs (directLines now source ls r) = maxLogs r"
  by (induction ls arbitrary: r) (simp_all add: pushEntry_def)

lemma directLines_logEvents:
  "logEvents (directLines now source ls r) = logEvents r @ map (directEntry now source) ls"
  by (induction ls arbitrary: r) (simp_all add: pushEntry_def)

lemma processLines_logs:
  "logs (processLines now category ls r) = logs r @ map (\<lambda>line. parseLine now line category) ls"
  by (induction ls arbitrary: r) (simp_all add: pushEntry_def)

lemma processLines_maxLogs: "maxLogs (processLines now category ls r) = maxLogs r"
  by (induction ls arbitrary: r) (simp_all add: pushEntry_def)

lemma trimLogs_logs: "0 < maxLogs r \<Longrightarrow> logs (trimLogs r) = mostRecent (maxLogs r) (logs r)"
  by (simp add: trimLogs_def mostRecent_def slice_neg)

lemma trimLogs_maxLogs: "maxLogs (trimLogs r) = maxLogs r"
  by (simp add: trimLogs_def)

lemma trimLogs_logEvents: "logEvents (trimLogs r) = logEvents r"
  by (simp add: trimLogs_def)

lemma mostRecent_append: "mostRecent n (mostRecent n xs @ ys) = mostRecent n (xs @ ys)"
proof (cases "length xs \<le> n")
  case True
  then show ?thesis by (simp add: mostRecent_def)
next
  case False
  then have "length xs - n + n = length xs" by simp
  then show ?thesis using False by (simp add: mostRecent_def add.commute)
qed

lemma applyPush_maxLogs: "maxLogs (applyPush r p) = maxLogs r"
  by (cases p) (simp_all add: addDirectLog_def processNewContent_def trimLogs_maxLogs
      directLines_maxLogs processLines_maxLogs)

lemma applyPush_logs:
  "0 < maxLogs r \<Longrightarrow> logs (applyPush r p) = mostRecent (maxLogs r) (logs r @ pushedBy p)"
  by (cases p) (simp_all add: addDirectLog_def processNewContent_def trimLogs_logs
      directLines_maxLogs processLines_maxLogs directLines_logs processLines_logs)

lemma foldl_applyPush_logs:
  "0 < maxLogs r \<Longrightarrow> logs r = mostRecent (maxLogs r) h \<Longrightarrow>
   logs (foldl applyPush r ops) = mostRecent (maxLogs r) (h @ pushHistory ops)"
proof (induction ops arbitrary: r h)
  case Nil
  then show ?case by (simp add: pushHistory_def)
next
  case (Cons p ops)
  have "logs (applyPush r p) = mostRecent (maxLogs r) (h @ pushedBy p)"
    using Cons.prems by (simp add: applyPush_logs mostRecent_append)
  then have "logs (foldl applyPush (applyPush r p) ops)
      = mostRecent (maxLogs (applyPush r p)) ((h @ pushedBy p) @ pushHistory ops)"
    using Cons.prems(1) by (intro Cons.IH) (simp_all add: applyPush_maxLogs)
  then show ?case by (simp add: pushHistory_def applyPush_maxLogs)
qed

text \<open>
  Claim C8. After every push operation, from the stream or from the tailer, the buffer
  holds at most 5000 entries, and they are the most recent 5000 of all entries pushed
  so far, in the order of the pushes: the oldest are dropped first.
\<close>

theorem ring_keeps_most_recent_5000:
  "logs (foldl applyPush newLogReader ops) = mostRecent 5000 (pushHistory ops)
   \<and> length (logs (foldl applyPush newLogReader ops)) \<le> 5000"
proof -
  have "logs (foldl applyPush newLogReader ops)
      = mostRecent (maxLogs newLogReader) ([] @ pushHistory ops)"
    by (rule foldl_applyPush_logs) (simp_all add: newLogReader_def mostRecent_def)
  then have "logs (foldl applyPush newLogReader ops) = mostRecent 5000 (pushHistory ops)"
    by (simp add: newLogReader_def)
  then show ?thesis by (simp add: mostRecent_def)
qed

text \<open>The string functions against their meaning on lists.\<close>

lemma startsWith_iff: "startsWith s n \<longleftrightarrow> (\<exists>suf. s = n @ suf)"
  by (induction s n rule: startsWith.induct) auto

lemma includesStr_iff: "includesStr s n \<longleftrightarrow> (\<exists>pre suf. s = pre @ n @ suf)"
proof (induction s)
  case Nil
  then show ?case by simp
next
  case (Cons d s)
  show ?case
  proof
    assume "includesStr (d # s) n"
    then consider "startsWith (d # s) n" | "includesStr s n" by auto
    then show "\<exists>pre suf. d # s = pre @ n @ suf"
    proof cases
      case 1
      then obtain suf where "d # s = n @ suf" by (auto simp: startsWith_iff)
      then have "d # s = [] @ n @ suf" by simp
      then show ?thesis by blast
    next
      case 2
      then obtain pre suf where "s = pre @ n @ suf" using Cons.IH by blast
      then have "d # s = (d # pre) @ n @ suf" by simp
      then show ?thesis by blast
    qed
  next
    assume "\<exists>pre suf. d # s = pre @ n @ suf"
    then obtain pre suf where eq: "d # s = pre @ n @ suf" by blast
    show "includesStr (d # s) n"
    proof (cases pre)
      case Nil
      then have "startsWith (d # s) n" using eq by (auto simp: startsWith_iff)
      then show ?thesis by simp
    next
      case (Cons p pre')
      then have "s = pre' @ n @ suf" using eq by simp
      then have "includesStr s n" using Cons.IH by blast
      then show ?thesis by simp
    qed
  qed
qed

lemma splitNewline_nonempty: "splitNewline s \<noteq> []"
  by (induction s) (auto split: list.splits)

lemma joinNewline_Cons: "ps \<noteq> [] \<Longrightarrow> joinNewline (p # ps) = p @ CHR 0x0A # joinNewline ps"
  by (cases ps) simp_all

lemma joinNewline_Cons_Cons: "joinNewline ((c # p) # ps) = c # joinNewline (p # ps)"
  by (cases ps) simp_all

lemma splitNewline_join: "joinNewline (splitNewline s) = s"
proof (induction s)
  case Nil
  then show ?case by simp
next
  case (Cons c s)
  then show ?case
    by (auto simp: joinNewline_Cons splitNewline_nonempty joinNewline_Cons_Cons split: list.splits)
qed

lemma splitNewline_pieces: "p \<in> set (splitNewline s) \<Longrightarrow> CHR 0x0A \<notin> set p"
  by (induction s arbitrary: p) (auto split: list.splits if_splits)

lemma addDirectLog_logEvents:
  "logEvents (addDirectLog now message source r)
     = logEvents r @ map (directEntry now source) (filter trimTruthy (splitNewline message))"
  by (simp add: addDirectLog_def trimLogs_logEvents directLines_logEvents)

lemma newEvents_addDirectLog:
  "newEvents r (addDirectLog now message source r)
     = map (directEntry now source) (filter trimTruthy (splitNewline message))"
  by (simp add: newEvents_def addDirectLog_logEvents)

lemma addDirectLog_logs:
  "0 < maxLogs r \<Longrightarrow> logs (addDirectLog now message source r)
     = mostRecent (maxLogs r) (logs r @ newEvents r (addDirectLog now message source r))"
  using applyPush_logs[of r "DirectPush now message source"]
  by (simp add: newEvents_addDirectLog)

text \<open>The definitions that evaluating the reader on a concrete input unfolds.\<close>

lemmas eval_defs = addDirectLog_def processNewContent_def trimLogs_def newLogReader_def
    pushEntry_def directEntry_def parseLine_def trimTruthy_def isWhiteSpace_def directLevel_def
    toLowerCase_def toLowerChar_def char_of_eq_iff parseLevel_def parseCategory_def mostRecent_def newEvents_def

text \<open>The tailer's lines, and \<open>parseLine\<close> against the rules of section 4.2.\<close>

lemma processLines_logEvents:
  "logEvents (processLines now category ls r)
     = logEvents r @ map (\<lambda>line. parseLine now line category) ls"
  by (induction ls arbitrary: r) (simp_all add: pushEntry_def)

lemma newEvents_processNewContent:
  "newEvents r (processNewContent now content category r)
     = map (\<lambda>line. parseLine now line category) (filter trimTruthy (splitNewline content))"
  by (simp add: newEvents_def processNewContent_def trimLogs_logEvents processLines_logEvents)

lemma parse_is_section42:
  "parseLevel lower = specLevel File lower" "parseLevel lower = specLevel Stdout lower"
  "parseCategory lower d = specCategory lower d"
  by (simp_all add: parseLevel_def specLevel_def parseCategory_def specCategory_def)

text \<open>
  Claim C7, as the program has it. A string pushed with a stdout or stderr tag is split at
  line feeds; lines that are empty or hold white space only are dropped; one \<open>log\<close> event
  is emitted per remaining line, in order. Every such entry has category console, with
  no override from the line. Its level is error for stderr; for stdout it is error when
  the lower-cased line contains \<open>error\<close>, else warning when it contains \<open>warn\<close>, else
  debug when it contains \<open>debug\<close>, else info. The entries are appended to the buffer,
  which is then cut to its bound. The rules of section 4.2, level and category override
  with the default of the file, are what a tailer read applies to each of its lines.
\<close>

theorem direct_push_classification:
  "map le_message (newEvents r (addDirectLog now message source r))
     = filter (\<lambda>line. \<exists>c \<in> set line. \<not> isWhiteSpace c) (splitNewline message)
   \<and> (\<forall>e \<in> set (newEvents r (addDirectLog now message source r)).
        le_category e = Console \<and> le_source e = source \<and> le_timestamp e = now
        \<and> le_level e =
            (if source = Stderr then LError
             else if source = Stdout \<and> includesStr (toLowerCase (le_message e)) ''error'' then LError
             else if source = Stdout \<and> includesStr (toLowerCase (le_message e)) ''warn'' then LWarning
             else if source = Stdout \<and> includesStr (toLowerCase (le_message e)) ''debug'' then LDebug
             else LInfo))
   \<and> (0 < maxLogs r \<longrightarrow> logs (addDirectLog now message source r)
         = mostRecent (maxLogs r) (logs r @ newEvents r (addDirectLog now message source r)))
   \<and> map le_message (newEvents r (processNewContent now content category r))
     = filter (\<lambda>line. \<exists>c \<in> set line. \<not> isWhiteSpace c) (splitNewline content)
   \<and> (\<forall>e \<in> set (newEvents r (processNewContent now content category r)).
        le_source e = File \<and> le_timestamp e = now
        \<and> le_level e = specLevel File (toLowerCase (le_message e))
        \<and> le_category e = specCategory (toLowerCase (le_message e)) category)"
proof (intro conjI)
  have tt: "trimTruthy = (\<lambda>line. \<exists>c \<in> set line. \<not> isWhiteSpace c)"
    by (auto simp: trimTruthy_def list_ex_iff fun_eq_iff)
  then show "map le_message (newEvents r (addDirectLog now message source r))
     = filter (\<lambda>line. \<exists>c \<in> set line. \<not> isWhiteSpace c) (splitNewline message)"
    by (simp add: newEvents_addDirectLog directEntry_def comp_def)
  from tt show "map le_message (newEvents r (processNewContent now content category r))
     = filter (\<lambda>line. \<exists>c \<in> set line. \<not> isWhiteSpace c) (splitNewline content)"
    by (simp add: newEvents_processNewContent parseLine_def comp_def Let_def)
next
  show "\<forall>e \<in> set (newEvents r (addDirectLog now message source r)).
        le_category e = Console \<and> le_source e = source \<and> le_timestamp e = now
        \<and> le_level e =
            (if source = Stderr then LError
             else if source = Stdout \<and> includesStr (toLowerCase (le_message e)) ''error'' then LError
             else if source = Stdout \<and> includesStr (toLowerCase (le_message e)) ''warn'' then LWarning
             else if source = Stdout \<and> includesStr (toLowerCase (le_message e)) ''debug'' then LDebug
             else LInfo)"
    by (cases source) (auto simp: newEvents_addDirectLog directEntry_def directLevel_def)
next
  show "0 < maxLogs r \<longrightarrow> logs (addDirectLog now message source r)
         = mostRecent (maxLogs r) (logs r @ newEvents r (addDirectLog now message source r))"
    by (simp add: addDirectLog_logs)
next
  show "\<forall>e \<in> set (newEvents r (processNewContent now content category r)).
        le_source e = File \<and> le_timestamp e = now
        \<and> le_level e = specLevel File (toLowerCase (le_message e))
        \<and> le_category e = specCategory (toLowerCase (le_message e)) category"
    by (auto simp: newEvents_processNewContent parseLine_def Let_def parse_is_section42)
qed

theorem direct_push_classification_witness:
  "map le_message (newEvents newLogReader
       (addDirectLog 1000 ''Build ERROR\<newline>  \<newline>cpu idle'' Stdout newLogReader))
     = [''Build ERROR'', ''cpu idle'']
   \<and> map le_level (newEvents newLogReader
       (addDirectLog 1000 ''Build ERROR\<newline>  \<newline>cpu idle'' Stdout newLogReader))
     = [LError, LInfo]
   \<and> map le_category (newEvents newLogReader
       (addDirectLog 1000 ''Build ERROR\<newline>  \<newline>cpu idle'' Stdout newLogReader))
     = [Console, Console]
   \<and> 0 < maxLogs newLogReader
   \<and> map le_message (newEvents newLogReader
       (processNewContent 1000 ''Uncaught exception in fetch\<newline>\<newline>cpu idle'' System newLogReader))
     = [''Uncaught exception in fetch'', ''cpu idle'']
   \<and> map le_level (newEvents newLogReader
       (processNewContent 1000 ''Uncaught exception in fetch\<newline>\<newline>cpu idle'' System newLogReader))
     = [LError, LInfo]
   \<and> map le_category (newEvents newLogReader
       (processNewContent 1000 ''Uncaught exception in fetch\<newline>\<newline>cpu idle'' System newLogReader))
     = [Network, Performance]"
  using direct_push_classification[where r = newLogReader and now = 1000
      and message = "''Build ERROR\<newline>  \<newline>cpu idle''" and source = Stdout
      and content = "''Uncaught exception in fetch\<newline>\<newline>cpu idle''" and category = System]
  by (simp add: eval_defs)

text \<open>
  Claim C7 as stated fails: the stdout line \<open>Uncaught exception in fetch\<close> gets level
  info and category console, where the rules of section 4.2 give error and network.
\<close>

theorem direct_push_classification_counterexample:
  "logs (addDirectLog 1000 ''Uncaught exception in fetch'' Stdout newLogReader)
     = [\<lparr>le_timestamp = 1000, le_level = LInfo, le_category = Console,
         le_message = ''Uncaught exception in fetch'', le_source = Stdout\<rparr>]
   \<and> specLevel Stdout (toLowerCase ''Uncaught exception in fetch'') = LError
   \<and> specCategory (toLowerCase ''Uncaught exception in fetch'') Console = Network"
  by (simp add: eval_defs specLevel_def specCategory_def)

lemma categoryName_eq: "categoryName a = categoryName b \<longleftrightarrow> a = b"
  by (cases a; cases b) simp_all

lemma categoryName_nonempty: "categoryName a \<noteq> []"
  by (cases a) simp_all

text \<open>
  Claim C9. \<open>getLogs\<close> cuts to the last \<open>limit\<close> entries only for a limit that is given
  and not 0. With limit 0, or none, it returns all entries that match the category
  filter, in the order of the pushes: all of the buffer without a category, the entries
  of that category with one. A positive limit keeps the last that many of them.
\<close>

theorem getLogs_limit_zero_or_omitted:
  "getLogs (Some 0) category r = getLogs None category r
   \<and> getLogs None None r = logs r
   \<and> getLogs None (Some (categoryName c)) r = filter (\<lambda>l. le_category l = c) (logs r)
   \<and> (n \<noteq> 0 \<longrightarrow> getLogs (Some n) category r = slice (- n) (getLogs None category r))
   \<and> (0 < n \<longrightarrow> getLogs (Some n) category r
         = mostRecent (nat n) (getLogs None category r))"
  by (simp add: getLogs_def Let_def categoryName_eq categoryName_nonempty slice_neg_int
      mostRecent_def split: option.splits)

theorem getLogs_limit_zero_or_omitted_witness:
  "getLogs (Some 0) (Some ''network'') threeLogs = getLogs None (Some ''network'') threeLogs
   \<and> map le_message (getLogs (Some 0) (Some ''network'') threeLogs) = [''fetch three'', ''four [network]'']
   \<and> (1::int) \<noteq> 0 \<and> 0 < (1::int)
   \<and> map le_message (getLogs (Some 1) (Some ''network'') threeLogs) = [''four [network]'']"
  using getLogs_limit_zero_or_omitted[of "Some ''network''" threeLogs Network 1]
  by (simp add: threeLogs_def eval_defs getLogs_def slice_def)

section \<open>Properties of the supervisor\<close>

text \<open>The definitions that a run of the manager unfolds.\<close>

lemmas manager_defs = start_def startDevMode_def startProductionMode_def setStatus_def emit_def
  perform_def getStatus_def startHealthCheck_def stopHealthCheck_def startResourceMonitor_def
  stopResourceMonitor_def attachProcessListeners_def onProcessExit_def stop_def killProcess_def
  restart_def onRestartTimer_def newWatchdogManager_def DEFAULT_CONFIG_def onError_def
  initialize_def
  onStdoutData_def onStderrData_def onChildError_def onHealthCheck_def onResourceSample_def
  updateConfig_def clearCrashLog_def mergeConfig_def orElse_def getCrashLog_def getConfig_def

lemmas trace_defs = scheduledDelays_def crashEvents_def statusChanges_def spawnCount_def

text \<open>The state transformers as record updates.\<close>

lemma stopHealthCheck_eq: "stopHealthCheck s = s\<lparr>healthCheckTimer := None\<rparr>"
  by (simp add: stopHealthCheck_def)

lemma stopResourceMonitor_eq:
  "stopResourceMonitor s = s\<lparr>resourceTimer := None, memoryUsage := None, cpuUsage := None\<rparr>"
  by (simp add: stopResourceMonitor_def)

lemma startHealthCheck_eq:
  "startHealthCheck s = s\<lparr>healthCheckTimer := Some (healthCheckIntervalMs (config s))\<rparr>"
  by (simp add: startHealthCheck_def stopHealthCheck_eq)

lemma startResourceMonitor_eq:
  "startResourceMonitor s = s\<lparr>resourceTimer := Some 5000, memoryUsage := None, cpuUsage := None\<rparr>"
  by (simp add: startResourceMonitor_def stopResourceMonitor_eq)

lemma setStatus_eq:
  "setStatus st now s =
     s\<lparr>status := st,
       effects := effects s @ [Emit (StatusChanged (getStatus now (s\<lparr>status := st\<rparr>)))]\<rparr>"
  by (simp add: setStatus_def emit_def perform_def Let_def)

lemma perform_eq: "perform e s = s\<lparr>effects := effects s @ [e]\<rparr>"
  by (simp add: perform_def)

lemma emit_eq: "emit e s = s\<lparr>effects := effects s @ [Emit e]\<rparr>"
  by (simp add: emit_def perform_def)

lemmas prim_eqs = stopHealthCheck_eq stopResourceMonitor_eq startHealthCheck_eq
  startResourceMonitor_eq setStatus_eq perform_eq emit_eq

lemma onProcessExit_parts:
  "onProcessExit code signal now s =
     (if code = Some 0 \<or> status (afterExit s) = Stopped then setStatus Stopped now (afterExit s)
      else if \<not> autoRestart (config (recordCrash code signal now (afterExit s)))
      then recordCrash code signal now (afterExit s)
      else if int (length (recentCrashTimestamps (recordCrash code signal now (afterExit s))))
                \<ge> maxRestarts (config (recordCrash code signal now (afterExit s)))
      then emit MaxRestarts (setStatus Max_restarts now (recordCrash code signal now (afterExit s)))
      else scheduleRestart now (uptimeAt now (afterExit s))
             (recordCrash code signal now (afterExit s)))"
  by (simp only: onProcessExit_def afterExit_def recordCrash_def scheduleRestart_def
      uptimeAt_def Let_def)


lemma getStatus_effects [simp]: "getStatus now (s\<lparr>effects := es\<rparr>) = getStatus now s"
  by (simp add: getStatus_def)

lemma afterExit_eq:
  "afterExit s = s\<lparr>healthCheckTimer := None, resourceTimer := None, memoryUsage := None,
                    cpuUsage := None, pid := None\<rparr>"
  by (simp add: afterExit_def prim_eqs)

lemma setStatus_effects:
  "effects (setStatus st now s)
     = effects s @ [Emit (StatusChanged (getStatus now (setStatus st now s)))]"
  by (simp add: setStatus_eq)

lemma recordCrash_fields:
  "config (recordCrash code signal now s) = config s"
  "startTime (recordCrash code signal now s) = startTime s"
  "backoffMs (recordCrash code signal now s) = backoffMs s"
  "restartTimer (recordCrash code signal now s) = restartTimer s"
  "healthCheckTimer (recordCrash code signal now s) = healthCheckTimer s"
  "resourceTimer (recordCrash code signal now s) = resourceTimer s"
  "pid (recordCrash code signal now s) = pid s"
  "childProcess (recordCrash code signal now s) = childProcess s"
  "errorListener (recordCrash code signal now s) = errorListener s"
  "status (recordCrash code signal now s) = Crashed"
  "recentCrashTimestamps (recordCrash code signal now s)
     = withinWindow (restartWindowMs (config s)) now (recentCrashTimestamps s @ [now])"
  "crashLog (recordCrash code signal now s)
     = crashLog s @ [\<lparr>ce_timestamp = now, ce_exitCode = code, ce_signal = signal,
                       ce_uptimeMs = uptimeAt now s,
                       ce_stderr = slice (- 2048) (stderrBuffer s)\<rparr>]"
  by (simp_all add: recordCrash_def prim_eqs Let_def withinWindow_def uptimeAt_def)

lemma recordCrash_effects:
  "effects (recordCrash code signal now s)
     = effects s @ [SaveCrashLog,
                    Emit (Crash \<lparr>ce_timestamp = now, ce_exitCode = code, ce_signal = signal,
                                 ce_uptimeMs = uptimeAt now s,
                                 ce_stderr = slice (- 2048) (stderrBuffer s)\<rparr>),
                    Emit (StatusChanged (getStatus now (recordCrash code signal now s)))]"
  by (simp add: recordCrash_def prim_eqs Let_def withinWindow_def uptimeAt_def getStatus_def)

lemma scheduleRestart_fields:
  "config (scheduleRestart now up s) = config s"
  "startTime (scheduleRestart now up s) = startTime s"
  "recentCrashTimestamps (scheduleRestart now up s) = recentCrashTimestamps s"
  "crashLog (scheduleRestart now up s) = crashLog s"
  "healthCheckTimer (scheduleRestart now up s) = healthCheckTimer s"
  "resourceTimer (scheduleRestart now up s) = resourceTimer s"
  "pid (scheduleRestart now up s) = pid s"
  "childProcess (scheduleRestart now up s) = childProcess s"
  "errorListener (scheduleRestart now up s) = errorListener s"
  "status (scheduleRestart now up s) = Restarting"
  "restartTimer (scheduleRestart now up s) = Some (if up > 60000 then 1000 else backoffMs s)"
  "backoffMs (scheduleRestart now up s)
     = min (2 * (if up > 60000 then 1000 else backoffMs s)) 30000"
  by (simp_all add: scheduleRestart_def prim_eqs Let_def mult.commute)

lemma scheduleRestart_effects:
  "effects (scheduleRestart now up s)
     = effects s @ [Emit (StatusChanged
                      ((getStatus now s)\<lparr>si_status := Restarting,
                         si_backoffMs := (if up > 60000 then 1000 else backoffMs s)\<rparr>)),
                    SetTimeout (if up > 60000 then 1000 else backoffMs s)]"
  by (simp add: scheduleRestart_def prim_eqs Let_def getStatus_def)

text \<open>What \<open>onProcessExit\<close> and \<open>start\<close> do to each field.\<close>

lemmas exit_simps = onProcessExit_parts afterExit_eq recordCrash_fields scheduleRestart_fields
  prim_eqs

lemma exit_frame:
  "config (onProcessExit code signal now s) = config s"
  "startTime (onProcessExit code signal now s) = startTime s"
  "errorListener (onProcessExit code signal now s) = errorListener s"
  "childProcess (onProcessExit code signal now s) = childProcess s"
  "healthCheckTimer (onProcessExit code signal now s) = None"
  "resourceTimer (onProcessExit code signal now s) = None"
  "pid (onProcessExit code signal now s) = None"
  by (simp_all add: exit_simps)

lemma exit_normal:
  assumes "code = Some 0 \<or> status s = Stopped"
  shows "status (onProcessExit code signal now s) = Stopped"
    and "backoffMs (onProcessExit code signal now s) = backoffMs s"
    and "recentCrashTimestamps (onProcessExit code signal now s) = recentCrashTimestamps s"
    and "crashLog (onProcessExit code signal now s) = crashLog s"
    and "restartTimer (onProcessExit code signal now s) = restartTimer s"
  using assms by (simp_all add: exit_simps)

lemma exit_crash:
  assumes "code \<noteq> Some 0" and "status s \<noteq> Stopped"
  shows "recentCrashTimestamps (onProcessExit code signal now s)
           = withinWindow (restartWindowMs (config s)) now (recentCrashTimestamps s @ [now])"
    and "crashLog (onProcessExit code signal now s)
           = crashLog s @ [\<lparr>ce_timestamp = now, ce_exitCode = code, ce_signal = signal,
                             ce_uptimeMs = uptimeAt now s,
                             ce_stderr = slice (- 2048) (stderrBuffer s)\<rparr>]"
  using assms by (simp_all add: exit_simps uptimeAt_def)

lemma exit_crash_no_restart:
  assumes "code \<noteq> Some 0" and "status s \<noteq> Stopped"
    and "\<not> autoRestart (config s)
     \<or> maxRestarts (config s) \<le> int (length (withinWindow (restartWindowMs (config s)) now
                                          (recentCrashTimestamps s @ [now])))"
  shows "backoffMs (onProcessExit code signal now s) = backoffMs s"
    and "restartTimer (onProcessExit code signal now s) = restartTimer s"
    and "status (onProcessExit code signal now s)
           = (if autoRestart (config s) then Max_restarts else Crashed)"
  using assms by (auto simp add: exit_simps)

lemma exit_crash_restart:
  assumes "code \<noteq> Some 0" and "status s \<noteq> Stopped" and "autoRestart (config s)"
    and "int (length (withinWindow (restartWindowMs (config s)) now
                        (recentCrashTimestamps s @ [now]))) < maxRestarts (config s)"
  shows "status (onProcessExit code signal now s) = Restarting"
    and "restartTimer (onProcessExit code signal now s)
           = Some (if uptimeAt now s > 60000 then 1000 else backoffMs s)"
    and "backoffMs (onProcessExit code signal now s)
           = min (2 * (if uptimeAt now s > 60000 then 1000 else backoffMs s)) 30000"
  using assms by (simp_all add: exit_simps uptimeAt_def)

lemma start_running: "status s = Running \<Longrightarrow> start modeArg now spawnPid s = (Returned, s)"
  by (simp add: start_def)

lemma start_frame:
  "backoffMs (snd (start modeArg now spawnPid s)) = backoffMs s"
  "recentCrashTimestamps (snd (start modeArg now spawnPid s)) = recentCrashTimestamps s"
  "crashLog (snd (start modeArg now spawnPid s)) = crashLog s"
  "restartTimer (snd (start modeArg now spawnPid s)) = restartTimer s"
  "errorListener (snd (start modeArg now spawnPid s)) = errorListener s"
  by (simp_all add: start_def startDevMode_def startProductionMode_def attachProcessListeners_def
      prim_eqs Let_def split: option.splits)

lemma start_startTime:
  "status s \<noteq> Running \<Longrightarrow> startTime (snd (start modeArg now spawnPid s)) = now"
  by (simp add: start_def startDevMode_def startProductionMode_def attachProcessListeners_def
      prim_eqs Let_def split: option.splits)

lemma start_status:
  "status (snd (start modeArg now spawnPid s)) = Running
   \<or> status (snd (start modeArg now spawnPid s)) = Stopped"
  by (simp add: start_def startDevMode_def startProductionMode_def attachProcessListeners_def
      prim_eqs Let_def split: option.splits)

text \<open>What the other methods do, and what every step preserves.\<close>

lemma stop_fields:
  "status (stop now s) = Stopped"
  "startTime (stop now s) = startTime s"
  "backoffMs (stop now s) = backoffMs s"
  "recentCrashTimestamps (stop now s) = recentCrashTimestamps s"
  "crashLog (stop now s) = crashLog s"
  "restartTimer (stop now s) = None"
  "healthCheckTimer (stop now s) = None"
  "resourceTimer (stop now s) = None"
  "config (stop now s) = config s"
  by (simp_all add: stop_def killProcess_def prim_eqs Let_def split: option.splits)

lemma restart_stopped:
  "status (case exitSeen of None \<Rightarrow> stop stopTime s
           | Some (code, signal, t) \<Rightarrow> onProcessExit code signal t (stop stopTime s)) = Stopped"
  by (simp add: stop_fields exit_normal split: option.splits prod.splits)

lemma restart_fields:
  "backoffMs (snd (restart stopTime exitSeen now spawnPid s)) = 1000"
  "recentCrashTimestamps (snd (restart stopTime exitSeen now spawnPid s)) = []"
  "startTime (snd (restart stopTime exitSeen now spawnPid s)) = now"
  by (simp_all add: restart_def Let_def start_frame start_startTime restart_stopped)

lemma restart_status:
  "status (snd (restart stopTime exitSeen now spawnPid s)) = Running
   \<or> status (snd (restart stopTime exitSeen now spawnPid s)) = Stopped"
  by (simp add: restart_def Let_def start_status)

lemma exit_status:
  "status (onProcessExit code signal now s) \<noteq> Running
   \<and> status (onProcessExit code signal now s) \<noteq> Idle"
  by (simp add: exit_simps)

lemma exit_backoff_ladder:
  "backoffMs s \<in> ladder \<Longrightarrow> backoffMs (onProcessExit code signal now s) \<in> ladder"
  by (auto simp add: exit_simps ladder_def)

lemma misc_fields:
  "status (updateConfig u s) = status s" "startTime (updateConfig u s) = startTime s"
  "backoffMs (updateConfig u s) = backoffMs s"
  "status (clearCrashLog s) = status s" "startTime (clearCrashLog s) = startTime s"
  "backoffMs (clearCrashLog s) = backoffMs s"
  "status (onStdoutData text s) = status s" "startTime (onStdoutData text s) = startTime s"
  "backoffMs (onStdoutData text s) = backoffMs s"
  "status (onStderrData text s) = status s" "startTime (onStderrData text s) = startTime s"
  "backoffMs (onStderrData text s) = backoffMs s"
  "status (onChildError message s) = status s" "startTime (onChildError message s) = startTime s"
  "backoffMs (onChildError message s) = backoffMs s"
  "status (onHealthCheck ok now s) = status s" "startTime (onHealthCheck ok now s) = startTime s"
  "backoffMs (onHealthCheck ok now s) = backoffMs s"
  "status (onResourceSample sample s) = status s"
  "startTime (onResourceSample sample s) = startTime s"
  "backoffMs (onResourceSample sample s) = backoffMs s"
  "status (initialize savedConfig savedCrashes s) = status s"
  "startTime (initialize savedConfig savedCrashes s) = startTime s"
  "backoffMs (initialize savedConfig savedCrashes s) = backoffMs s"
  "status (onError s) = status s" "startTime (onError s) = startTime s"
  "backoffMs (onError s) = backoffMs s"
  by (simp_all add: updateConfig_def clearCrashLog_def onStdoutData_def onStderrData_def
      onChildError_def onHealthCheck_def onResourceSample_def initialize_def onError_def
      prim_eqs Let_def split: option.splits)

lemma step_backoff_ladder: "backoffMs s \<in> ladder \<Longrightarrow> backoffMs (step s i) \<in> ladder"
  by (cases i)
     (simp_all add: start_frame stop_fields restart_fields misc_fields exit_backoff_ladder
        onRestartTimer_def, simp add: ladder_def)

lemma run_backoff_ladder: "backoffMs s \<in> ladder \<Longrightarrow> backoffMs (run s inputs) \<in> ladder"
  unfolding run_def by (induction inputs arbitrary: s) (simp_all add: step_backoff_ladder)

lemma start_upInv: "0 < now \<Longrightarrow> upInv s \<Longrightarrow> upInv (snd (start modeArg now spawnPid s))"
proof (cases "status s = Running")
  case True
  assume "upInv s"
  then show ?thesis using True by (simp add: start_running)
next
  case False
  assume "0 < now"
  then show ?thesis
    using False start_status[of modeArg now spawnPid s]
    by (auto simp: upInv_def start_startTime)
qed

lemma step_upInv:
  "list_all (\<lambda>t. 0 < t) (clockReadings i) \<Longrightarrow> upInv s \<Longrightarrow> upInv (step s i)"
proof (cases i)
  case (CallStart modeArg now spawnPid)
  then show "list_all (\<lambda>t. 0 < t) (clockReadings i) \<Longrightarrow> upInv s \<Longrightarrow> upInv (step s i)"
    by (simp add: start_upInv)
next
  case (CallStop now)
  then show "list_all (\<lambda>t. 0 < t) (clockReadings i) \<Longrightarrow> upInv s \<Longrightarrow> upInv (step s i)"
    by (simp add: upInv_def stop_fields)
next
  case (CallRestart stopTime exitSeen now spawnPid)
  then show "list_all (\<lambda>t. 0 < t) (clockReadings i) \<Longrightarrow> upInv s \<Longrightarrow> upInv (step s i)"
    using restart_status[of stopTime exitSeen now spawnPid s]
    by (auto simp: upInv_def restart_fields)
next
  case (ChildExit code signal now)
  then show "list_all (\<lambda>t. 0 < t) (clockReadings i) \<Longrightarrow> upInv s \<Longrightarrow> upInv (step s i)"
    using exit_status[of code signal now s] by (simp add: upInv_def)
next
  case (RestartTimerFires now spawnPid)
  assume a: "list_all (\<lambda>t. 0 < t) (clockReadings i)" "upInv s"
  have "upInv (s\<lparr>restartTimer := None\<rparr>)" using a(2) by (simp add: upInv_def)
  then show "upInv (step s i)"
    using a RestartTimerFires by (simp add: onRestartTimer_def start_upInv)
qed (simp_all add: upInv_def misc_fields)

lemma run_upInv: "clockPositive inputs \<Longrightarrow> upInv s \<Longrightarrow> upInv (run s inputs)"
  unfolding run_def clockPositive_def
  by (induction inputs arbitrary: s) (simp_all add: step_upInv)

section \<open>The claims about the supervisor\<close>

text \<open>
  Claim C10. When the status is running, \<open>start(mode)\<close> returns at once and leaves the
  whole state of the supervisor as it is: no child is spawned, nothing is emitted (the
  trace is part of the state), and the configured mode stays, whatever the argument.
\<close>

theorem start_while_running_changes_nothing:
  "status s = Running \<Longrightarrow> start modeArg now spawnPid s = (Returned, s)"
  by (simp add: start_def)

theorem start_while_running_changes_nothing_witness:
  "status runningManager = Running
   \<and> start (Some Production) 1000500 (Some 4243) runningManager = (Returned, runningManager)
   \<and> mode (config runningManager) = Dev"
proof -
  have running: "status runningManager = Running"
    unfolding runningManager_def scenarioConfig_def by code_simp
  have "mode (config runningManager) = Dev"
    unfolding runningManager_def scenarioConfig_def by code_simp
  then show ?thesis
    using running start_while_running_changes_nothing[OF running, of "Some Production" 1000500 "Some 4243"]
    by simp
qed

text \<open>
  Claim C4 at the input where the program departs from it: \<open>start()\<close> with the default
  configuration, whose dev path is empty. With a listener for \<open>error\<close> the supervisor
  ends in status stopped, and \<open>start\<close> has still armed the health timer and the
  resource timer. Without one, as in src/main/index.ts, \<open>emit('error')\<close> throws, and the
  status stays running with neither timer armed.
\<close>

theorem missing_path_start_and_timers:
  "status (snd (start None 1000000 None (onError (newWatchdogManager DEFAULT_CONFIG)))) = Stopped
   \<and> healthCheckTimer (snd (start None 1000000 None (onError (newWatchdogManager DEFAULT_CONFIG))))
       = Some 10000
   \<and> resourceTimer (snd (start None 1000000 None (onError (newWatchdogManager DEFAULT_CONFIG))))
       = Some 5000
   \<and> fst (start None 1000000 None (newWatchdogManager DEFAULT_CONFIG))
       = Threw ''No dev path configured''
   \<and> status (snd (start None 1000000 None (newWatchdogManager DEFAULT_CONFIG))) = Running
   \<and> healthCheckTimer (snd (start None 1000000 None (newWatchdogManager DEFAULT_CONFIG))) = None
   \<and> resourceTimer (snd (start None 1000000 None (newWatchdogManager DEFAULT_CONFIG))) = None"
  by code_simp

lemma exit_crash_effects:
  assumes "code \<noteq> Some 0" and "status s \<noteq> Stopped"
  shows "effectsSince s (onProcessExit code signal now s) =
     [SaveCrashLog,
      Emit (Crash \<lparr>ce_timestamp = now, ce_exitCode = code, ce_signal = signal,
                   ce_uptimeMs = uptimeAt now s,
                   ce_stderr = slice (- 2048) (stderrBuffer s)\<rparr>),
      Emit (StatusChanged (getStatus now (recordCrash code signal now (afterExit s))))]
     @ (if \<not> autoRestart (config s) then []
        else if maxRestarts (config s)
                  \<le> int (length (withinWindow (restartWindowMs (config s)) now
                                     (recentCrashTimestamps s @ [now])))
        then [Emit (StatusChanged
                ((getStatus now (recordCrash code signal now (afterExit s)))
                   \<lparr>si_status := Max_restarts\<rparr>)),
              Emit MaxRestarts]
        else [Emit (StatusChanged
                ((getStatus now (recordCrash code signal now (afterExit s)))
                   \<lparr>si_status := Restarting,
                     si_backoffMs := (if uptimeAt now s > 60000 then 1000 else backoffMs s)\<rparr>)),
              SetTimeout (if uptimeAt now s > 60000 then 1000 else backoffMs s)])"
  using assms
  by (simp add: effectsSince_def onProcessExit_parts recordCrash_fields recordCrash_effects
      scheduleRestart_effects afterExit_eq prim_eqs uptimeAt_def getStatus_def)

lemma getStatus_recentCrashes:
  "si_recentCrashes (getStatus now s) = length (recentCrashTimestamps s)"
  by (simp add: getStatus_def)

text \<open>
  Claim C3 as stated fails at a query: one crash at 1000500, a restart that holds, and a
  query at 1400000 with the window of 300000 ms. No recorded crash lies within the
  window, and \<open>recentCrashes\<close> is 1.
\<close>

theorem recent_crashes_stale_on_query_counterexample:
  "status recoveredManager = Running
   \<and> si_recentCrashes (getStatus 1400000 recoveredManager) = 1
   \<and> withinWindow (restartWindowMs (config recoveredManager)) 1400000
        (map ce_timestamp (getCrashLog recoveredManager)) = []
   \<and> withinWindow (restartWindowMs (config recoveredManager)) 1400000
        (recentCrashTimestamps recoveredManager) = []"
  unfolding recoveredManager_def scenarioConfig_def by code_simp

text \<open>
  Claim C6, as the program has it. After any run \<open>backoffMs\<close> is a rung of the ladder
  1000, 2000, 4000, 8000, 16000, 30000. A crash that schedules a restart (auto-restart
  on, fewer crashes in the window than \<open>maxRestarts\<close>) arms the timer with 1000 when
  the uptime was above 60000 ms and with \<open>backoffMs\<close> otherwise, and leaves \<open>backoffMs\<close>
  at twice that delay, capped at 30000. A crash that schedules no restart, and an
  orderly exit, leave \<open>backoffMs\<close> as it is. \<open>restart()\<close> sets it to 1000.
\<close>

theorem backoff_ladder:
  "backoffMs (run (newWatchdogManager cfg) inputs) \<in> ladder
   \<and> (code \<noteq> Some 0 \<and> status s \<noteq> Stopped \<and> autoRestart (config s)
        \<and> int (length (withinWindow (restartWindowMs (config s)) now
                          (recentCrashTimestamps s @ [now]))) < maxRestarts (config s) \<longrightarrow>
        restartTimer (onProcessExit code signal now s)
          = Some (if uptimeAt now s > 60000 then 1000 else backoffMs s)
        \<and> backoffMs (onProcessExit code signal now s)
          = min (2 * (if uptimeAt now s > 60000 then 1000 else backoffMs s)) 30000)
   \<and> (code \<noteq> Some 0 \<and> status s \<noteq> Stopped
        \<and> (\<not> autoRestart (config s)
           \<or> maxRestarts (config s)
                \<le> int (length (withinWindow (restartWindowMs (config s)) now
                                   (recentCrashTimestamps s @ [now])))) \<longrightarrow>
        backoffMs (onProcessExit code signal now s) = backoffMs s)
   \<and> (code = Some 0 \<or> status s = Stopped \<longrightarrow>
        backoffMs (onProcessExit code signal now s) = backoffMs s)
   \<and> backoffMs (snd (restart stopTime exitSeen resumeTime spawnPid s)) = 1000"
proof (intro conjI impI)
  have "backoffMs (newWatchdogManager cfg) \<in> ladder"
    by (simp add: newWatchdogManager_def ladder_def)
  then show "backoffMs (run (newWatchdogManager cfg) inputs) \<in> ladder"
    by (rule run_backoff_ladder)
next
  assume a: "code \<noteq> Some 0 \<and> status s \<noteq> Stopped \<and> autoRestart (config s)
        \<and> int (length (withinWindow (restartWindowMs (config s)) now
                          (recentCrashTimestamps s @ [now]))) < maxRestarts (config s)"
  then show "restartTimer (onProcessExit code signal now s)
          = Some (if uptimeAt now s > 60000 then 1000 else backoffMs s)"
    by (simp add: exit_crash_restart)
  from a show "backoffMs (onProcessExit code signal now s)
          = min (2 * (if uptimeAt now s > 60000 then 1000 else backoffMs s)) 30000"
    by (simp add: exit_crash_restart)
next
  assume "code \<noteq> Some 0 \<and> status s \<noteq> Stopped
        \<and> (\<not> autoRestart (config s)
           \<or> maxRestarts (config s)
                \<le> int (length (withinWindow (restartWindowMs (config s)) now
                                   (recentCrashTimestamps s @ [now]))))"
  then show "backoffMs (onProcessExit code signal now s) = backoffMs s"
    using exit_crash_no_restart(1)[of code s now signal] by blast
next
  assume "code = Some 0 \<or> status s = Stopped"
  then show "backoffMs (onProcessExit code signal now s) = backoffMs s"
    by (rule exit_normal)
next
  show "backoffMs (snd (restart stopTime exitSeen resumeTime spawnPid s)) = 1000"
    by (rule restart_fields)
qed

text \<open>
  Claim C6 as stated fails at a crash that reaches the limit: with \<open>maxRestarts = 2\<close>,
  the second child crashes after 98500 ms of uptime; \<open>backoffMs\<close> was 2000 and stays
  2000, neither doubled nor reset to 1000, and no restart is scheduled.
\<close>

theorem crash_at_limit_keeps_backoff_counterexample:
  "backoffMs beforeSecondCrash = 2000
   \<and> status beforeSecondCrash = Running
   \<and> uptimeAt 1100000 beforeSecondCrash = 98500
   \<and> status (onProcessExit (Some 1) None 1100000 beforeSecondCrash) = Max_restarts
   \<and> backoffMs (onProcessExit (Some 1) None 1100000 beforeSecondCrash) = 2000
   \<and> restartTimer (onProcessExit (Some 1) None 1100000 beforeSecondCrash) = None"
  unfolding beforeSecondCrash_def twoCrashConfig_def scenarioConfig_def by code_simp

theorem backoff_ladder_witness:
  "Some 1 \<noteq> Some (0::int) \<and> status runningManager \<noteq> Stopped
   \<and> autoRestart (config runningManager)
   \<and> int (length (withinWindow (restartWindowMs (config runningManager)) 1070000
                     (recentCrashTimestamps runningManager @ [1070000])))
        < maxRestarts (config runningManager)
   \<and> uptimeAt 1070000 runningManager = 70000
   \<and> restartTimer (onProcessExit (Some 1) None 1070000 runningManager) = Some 1000
   \<and> backoffMs (onProcessExit (Some 1) None 1070000 runningManager) = 2000
   \<and> backoffMs (onProcessExit (Some 0) None 1070000 runningManager) = 1000
   \<and> status beforeSecondCrash \<noteq> Stopped
   \<and> maxRestarts (config beforeSecondCrash)
        \<le> int (length (withinWindow (restartWindowMs (config beforeSecondCrash)) 1100000
                           (recentCrashTimestamps beforeSecondCrash @ [1100000])))
   \<and> backoffMs (onProcessExit (Some 1) None 1100000 beforeSecondCrash) = 2000
   \<and> backoffMs (run (newWatchdogManager scenarioConfig)
         [CallStart None 1000000 (Some 4242), ChildExit (Some 1) None 1000500]) = 2000
   \<and> backoffMs (snd (restart 1070000 (Some (None, Some ''SIGTERM'', 1070100)) 1070200
                        (Some 4243) (onProcessExit (Some 1) None 1000500 runningManager))) = 1000"
proof -
  have h: "Some 1 \<noteq> Some (0::int) \<and> status runningManager \<noteq> Stopped
   \<and> autoRestart (config runningManager)
   \<and> int (length (withinWindow (restartWindowMs (config runningManager)) 1070000
                     (recentCrashTimestamps runningManager @ [1070000])))
        < maxRestarts (config runningManager)"
    unfolding runningManager_def scenarioConfig_def by code_simp
  have h2: "status beforeSecondCrash \<noteq> Stopped
   \<and> maxRestarts (config beforeSecondCrash)
        \<le> int (length (withinWindow (restartWindowMs (config beforeSecondCrash)) 1100000
                           (recentCrashTimestamps beforeSecondCrash @ [1100000])))"
    unfolding beforeSecondCrash_def twoCrashConfig_def scenarioConfig_def by code_simp
  have v: "uptimeAt 1070000 runningManager = 70000"
    "backoffMs runningManager = 1000"
    "backoffMs beforeSecondCrash = 2000"
    "backoffMs (run (newWatchdogManager scenarioConfig)
         [CallStart None 1000000 (Some 4242), ChildExit (Some 1) None 1000500]) = 2000"
    unfolding runningManager_def beforeSecondCrash_def twoCrashConfig_def scenarioConfig_def
    by code_simp+
  show ?thesis
    using h h2 v
      backoff_ladder[of scenarioConfig "[]" "Some 1" runningManager 1070000 None 1070000
        "Some (None, Some ''SIGTERM'', 1070100)" 1070200 "Some 4243"]
      backoff_ladder[of scenarioConfig "[]" "Some 0" runningManager 1070000 None 1070000
        None 1070200 "Some 4243"]
      backoff_ladder[of scenarioConfig "[]" "Some 1" beforeSecondCrash 1100000 None 1070000
        None 1070200 "Some 4243"]
      backoff_ladder[of scenarioConfig "[]" "Some 0"
        "onProcessExit (Some 1) None 1000500 runningManager" 1070000 None 1070000
        "Some (None, Some ''SIGTERM'', 1070100)" 1070200 "Some 4243"]
    by simp
qed

text \<open>What a \<open>start()\<close> from a status other than running leaves in the trace.\<close>

lemma getStatus_status: "si_status (getStatus now s) = status s"
  by (simp add: getStatus_def)

lemmas start_defs = start_def startDevMode_def startProductionMode_def
  attachProcessListeners_def prim_eqs Let_def launchMode_def launchPath_def


lemma start_statusChanges:
  assumes "status s \<noteq> Running"
  shows "statusChanges (effectsSince s (snd (start modeArg now spawnPid s)))
           = Running # (if launchPath modeArg s = [] \<and> errorListener s then [Stopped] else [])"
  using assms
  by (cases modeArg; cases "launchMode modeArg s")
     (simp_all add: start_defs effectsSince_def trace_defs getStatus_status)

lemma start_spawnCount:
  assumes "status s \<noteq> Running"
  shows "spawnCount (effectsSince s (snd (start modeArg now spawnPid s)))
           = (if launchPath modeArg s = [] then 0 else 1)"
  using assms
  by (cases modeArg; cases "launchMode modeArg s")
     (simp_all add: start_defs effectsSince_def trace_defs)



lemma start_status_eq:
  assumes "status s \<noteq> Running"
  shows "status (snd (start modeArg now spawnPid s))
           = (if launchPath modeArg s = [] \<and> errorListener s then Stopped else Running)"
  using assms
  by (cases modeArg; cases "launchMode modeArg s") (simp_all add: start_defs)

lemma start_completion:
  assumes "status s \<noteq> Running"
  shows "fst (start modeArg now spawnPid s)
           = (if launchPath modeArg s = [] \<and> \<not> errorListener s
              then Threw (if launchMode modeArg s = Dev then ''No dev path configured''
                          else ''No exe path configured'')
              else Returned)"
  using assms
  by (cases modeArg; cases "launchMode modeArg s") (simp_all add: start_defs)









section \<open>The crash scenario\<close>

lemma effects_prefix_start: "effects (snd (start modeArg now spawnPid s))
    = effects s @ effectsSince s (snd (start modeArg now spawnPid s))"
  by (cases "status s = Running"; cases modeArg; cases "launchMode modeArg s")
     (simp_all add: start_defs effectsSince_def)

lemma effects_prefix_exit: "effects (onProcessExit code signal now s)
    = effects s @ effectsSince s (onProcessExit code signal now s)"
  by (simp add: effectsSince_def onProcessExit_parts recordCrash_effects scheduleRestart_effects
      afterExit_eq prim_eqs)

lemma start_other_traces:
  assumes "status s \<noteq> Running"
  shows "scheduledDelays (effectsSince s (snd (start modeArg now spawnPid s))) = []"
    and "crashEvents (effectsSince s (snd (start modeArg now spawnPid s))) = []"
  using assms
  by (cases modeArg; cases "launchMode modeArg s";
      simp add: start_defs effectsSince_def trace_defs)+

lemma start_config_none: "config (snd (start None now spawnPid s)) = config s"
  by (simp add: start_defs)


lemma trace_append:
  "statusChanges (xs @ ys) = statusChanges xs @ statusChanges ys"
  "scheduledDelays (xs @ ys) = scheduledDelays xs @ scheduledDelays ys"
  "crashEvents (xs @ ys) = crashEvents xs @ crashEvents ys"
  "spawnCount (xs @ ys) = spawnCount xs + spawnCount ys"
  by (simp_all add: trace_defs)

lemma crashCycle_start:
  assumes "mode (config s) = Dev" and "targetDevPath (config s) \<noteq> []"
    and "status s \<noteq> Running" and "0 < now"
  shows "status (snd (start None now (Some p) s)) = Running"
    and "uptimeAt (now + 500) (snd (start None now (Some p) s)) = 500"
    and "statusChanges (effects (snd (start None now (Some p) s)))
           = statusChanges (effects s) @ [Running]"
    and "spawnCount (effects (snd (start None now (Some p) s))) = spawnCount (effects s) + 1"
    and "scheduledDelays (effects (snd (start None now (Some p) s))) = scheduledDelays (effects s)"
    and "crashEvents (effects (snd (start None now (Some p) s))) = crashEvents (effects s)"
proof -
  have path: "launchPath None s \<noteq> []"
    using assms(1,2) by (simp add: launchPath_def launchMode_def)
  show "status (snd (start None now (Some p) s)) = Running"
    using assms(3) path by (simp add: start_status_eq)
  show "uptimeAt (now + 500) (snd (start None now (Some p) s)) = 500"
    using assms(3,4) by (simp add: uptimeAt_def start_startTime)
  show "statusChanges (effects (snd (start None now (Some p) s)))
           = statusChanges (effects s) @ [Running]"
    using assms(3) path
    by (subst effects_prefix_start) (simp add: trace_append start_statusChanges)
  show "spawnCount (effects (snd (start None now (Some p) s))) = spawnCount (effects s) + 1"
    using assms(3) path
    by (subst effects_prefix_start) (simp add: trace_append start_spawnCount)
  show "scheduledDelays (effects (snd (start None now (Some p) s))) = scheduledDelays (effects s)"
    using assms(3) by (subst effects_prefix_start) (simp add: trace_append start_other_traces)
  show "crashEvents (effects (snd (start None now (Some p) s))) = crashEvents (effects s)"
    using assms(3) by (subst effects_prefix_start) (simp add: trace_append start_other_traces)
qed

lemma exit_crash_traces:
  assumes "code \<noteq> Some 0" and "status s \<noteq> Stopped" and "autoRestart (config s)"
  shows "spawnCount (effects (onProcessExit code signal now s)) = spawnCount (effects s)"
    and "length (crashEvents (effects (onProcessExit code signal now s)))
           = length (crashEvents (effects s)) + 1"
    and "int (length (withinWindow (restartWindowMs (config s)) now
                        (recentCrashTimestamps s @ [now]))) < maxRestarts (config s) \<Longrightarrow>
         statusChanges (effects (onProcessExit code signal now s))
           = statusChanges (effects s) @ [Crashed, Restarting]
         \<and> scheduledDelays (effects (onProcessExit code signal now s))
           = scheduledDelays (effects s) @ [if uptimeAt now s > 60000 then 1000 else backoffMs s]"
    and "maxRestarts (config s)
           \<le> int (length (withinWindow (restartWindowMs (config s)) now
                              (recentCrashTimestamps s @ [now]))) \<Longrightarrow>
         statusChanges (effects (onProcessExit code signal now s))
           = statusChanges (effects s) @ [Crashed, Max_restarts]
         \<and> scheduledDelays (effects (onProcessExit code signal now s))
           = scheduledDelays (effects s)
         \<and> last (effects (onProcessExit code signal now s)) = Emit MaxRestarts"
  using assms
  by (subst effects_prefix_exit,
      simp add: exit_crash_effects trace_append,
      simp add: trace_defs getStatus_status recordCrash_fields)+


lemma crashCycle_frame:
  assumes "mode (config s) = Dev" and "targetDevPath (config s) \<noteq> []"
    and "status s \<noteq> Running" and "0 < now"
  shows "config (crashCycle now p s) = config s"
    and "recentCrashTimestamps (crashCycle now p s)
           = withinWindow (restartWindowMs (config s)) (now + 500)
               (recentCrashTimestamps s @ [now + 500])"
    and "length (crashLog (crashCycle now p s)) = length (crashLog s) + 1"
  using crashCycle_start(1)[OF assms, of p]
  by (simp_all add: crashCycle_def exit_frame exit_crash start_config_none start_frame)

lemma crashCycle_restart:
  assumes "mode (config s) = Dev" and "targetDevPath (config s) \<noteq> []"
    and "status s \<noteq> Running" and "0 < now" and "autoRestart (config s)"
    and "int (length (withinWindow (restartWindowMs (config s)) (now + 500)
                        (recentCrashTimestamps s @ [now + 500]))) < maxRestarts (config s)"
  shows "status (crashCycle now p s) = Restarting"
    and "restartTimer (crashCycle now p s) = Some (backoffMs s)"
    and "backoffMs (crashCycle now p s) = min (2 * backoffMs s) 30000"
    and "statusChanges (effects (crashCycle now p s))
           = statusChanges (effects s) @ [Running, Crashed, Restarting]"
    and "scheduledDelays (effects (crashCycle now p s))
           = scheduledDelays (effects s) @ [backoffMs s]"
    and "spawnCount (effects (crashCycle now p s)) = spawnCount (effects s) + 1"
    and "length (crashEvents (effects (crashCycle now p s)))
           = length (crashEvents (effects s)) + 1"
proof -
  let ?s1 = "snd (start None now (Some p) s)"
  note st = crashCycle_start[OF assms(1-4), of p]
  have c: "Some 1 \<noteq> Some (0::int)" "status ?s1 \<noteq> Stopped" "autoRestart (config ?s1)"
    using st(1) assms(5) by (simp_all add: start_config_none)
  have w: "int (length (withinWindow (restartWindowMs (config ?s1)) (now + 500)
                        (recentCrashTimestamps ?s1 @ [now + 500]))) < maxRestarts (config ?s1)"
    using assms(6) by (simp add: start_config_none start_frame)
  note r = exit_crash_restart[OF c(1,2,3) w]
  note t = exit_crash_traces[OF c(1,2,3)]
  show "status (crashCycle now p s) = Restarting"
    using r(1) by (simp add: crashCycle_def)
  show "restartTimer (crashCycle now p s) = Some (backoffMs s)"
    using r(2) st(2) by (simp add: crashCycle_def start_frame)
  show "backoffMs (crashCycle now p s) = min (2 * backoffMs s) 30000"
    using r(3) st(2) by (simp add: crashCycle_def start_frame)
  show "statusChanges (effects (crashCycle now p s))
           = statusChanges (effects s) @ [Running, Crashed, Restarting]"
    using t(3)[OF w] st(3) by (simp add: crashCycle_def)
  show "scheduledDelays (effects (crashCycle now p s))
           = scheduledDelays (effects s) @ [backoffMs s]"
    using t(3)[OF w] st(2,5) by (simp add: crashCycle_def start_frame)
  show "spawnCount (effects (crashCycle now p s)) = spawnCount (effects s) + 1"
    using t(1) st(4) by (simp add: crashCycle_def)
  show "length (crashEvents (effects (crashCycle now p s)))
           = length (crashEvents (effects s)) + 1"
    using t(2) st(6) by (simp add: crashCycle_def)
qed

lemma crashCycle_limit:
  assumes "mode (config s) = Dev" and "targetDevPath (config s) \<noteq> []"
    and "status s \<noteq> Running" and "0 < now" and "autoRestart (config s)"
    and "maxRestarts (config s)
           \<le> int (length (withinWindow (restartWindowMs (config s)) (now + 500)
                              (recentCrashTimestamps s @ [now + 500])))"
  shows "status (crashCycle now p s) = Max_restarts"
    and "restartTimer (crashCycle now p s) = restartTimer s"
    and "backoffMs (crashCycle now p s) = backoffMs s"
    and "statusChanges (effects (crashCycle now p s))
           = statusChanges (effects s) @ [Running, Crashed, Max_restarts]"
    and "scheduledDelays (effects (crashCycle now p s)) = scheduledDelays (effects s)"
    and "spawnCount (effects (crashCycle now p s)) = spawnCount (effects s) + 1"
    and "length (crashEvents (effects (crashCycle now p s)))
           = length (crashEvents (effects s)) + 1"
    and "last (effects (crashCycle now p s)) = Emit MaxRestarts"
proof -
  let ?s1 = "snd (start None now (Some p) s)"
  note st = crashCycle_start[OF assms(1-4), of p]
  have c: "Some 1 \<noteq> Some (0::int)" "status ?s1 \<noteq> Stopped" "autoRestart (config ?s1)"
    using st(1) assms(5) by (simp_all add: start_config_none)
  have w: "maxRestarts (config ?s1)
     \<le> int (length (withinWindow (restartWindowMs (config ?s1)) (now + 500)
                        (recentCrashTimestamps ?s1 @ [now + 500])))"
    using assms(6) by (simp add: start_config_none start_frame)
  have w': "\<not> autoRestart (config ?s1) \<or> maxRestarts (config ?s1)
     \<le> int (length (withinWindow (restartWindowMs (config ?s1)) (now + 500)
                        (recentCrashTimestamps ?s1 @ [now + 500])))"
    using w by simp
  note r = exit_crash_no_restart[OF c(1,2) w']
  note t = exit_crash_traces[OF c(1,2,3)]
  show "status (crashCycle now p s) = Max_restarts"
    using r(3) c(3) by (simp add: crashCycle_def)
  show "restartTimer (crashCycle now p s) = restartTimer s"
    using r(2) by (simp add: crashCycle_def start_frame)
  show "backoffMs (crashCycle now p s) = backoffMs s"
    using r(1) by (simp add: crashCycle_def start_frame)
  show "statusChanges (effects (crashCycle now p s))
           = statusChanges (effects s) @ [Running, Crashed, Max_restarts]"
    using t(4)[OF w] st(3) by (simp add: crashCycle_def)
  show "scheduledDelays (effects (crashCycle now p s)) = scheduledDelays (effects s)"
    using t(4)[OF w] st(5) by (simp add: crashCycle_def)
  show "spawnCount (effects (crashCycle now p s)) = spawnCount (effects s) + 1"
    using t(1) st(4) by (simp add: crashCycle_def)
  show "length (crashEvents (effects (crashCycle now p s)))
           = length (crashEvents (effects s)) + 1"
    using t(2) st(6) by (simp add: crashCycle_def)
  show "last (effects (crashCycle now p s)) = Emit MaxRestarts"
    using t(4)[OF w] by (simp add: crashCycle_def)
qed


lemma scenarioConfig_fields:
  "mode scenarioConfig = Dev" "targetDevPath scenarioConfig \<noteq> []" "autoRestart scenarioConfig"
  "maxRestarts scenarioConfig = 5" "restartWindowMs scenarioConfig = 300000"
  by (simp_all add: scenarioConfig_def DEFAULT_CONFIG_def)

lemma crashLoop_restart:
  assumes "status (crashCycle now p s) = Restarting"
    and "restartTimer (crashCycle now p s) = Some delay"
  shows "crashLoop (Suc fuel) now p s
           = crashLoop fuel (now + 500 + delay) (p + 1) ((crashCycle now p s)\<lparr>restartTimer := None\<rparr>)"
  using assms by (simp add: Let_def)

lemma crashLoop_limit:
  assumes "restartTimer (crashCycle now p s) = None"
  shows "crashLoop (Suc fuel) now p s = Some (crashCycle now p s)"
  using assms by (simp add: Let_def)

text \<open>
  Claim C1, as the program has it. From an empty crash history, with \<open>maxRestarts = 5\<close>,
  \<open>restartWindowMs = 300000\<close> and \<open>autoRestart = true\<close>, and a target that exits with
  code 1 after 500 ms on every run, the scenario ends, with fuel for five children or
  more: the supervisor has spawned 5 times; between the spawns it has armed the restart
  timer four times, with the delays 1000, 2000, 4000 and 8000 ms; it has emitted 5 crash
  events; after the fifth crash it is in status max_restarts, the last event is
  max_restarts, and no further restart is scheduled; \<open>getCrashLog()\<close> has length 5.
  \<open>backoffMs\<close> then reads 16000, a delay that is not used.
\<close>

theorem five_fast_crashes:
  assumes "0 < t0" and "5 \<le> fuel"
  shows "\<exists>s. crashLoop fuel t0 p (newWatchdogManager scenarioConfig) = Some s
     \<and> status s = Max_restarts
     \<and> spawnCount (effects s) = 5
     \<and> scheduledDelays (effects s) = [1000, 2000, 4000, 8000]
     \<and> length (crashEvents (effects s)) = 5
     \<and> statusChanges (effects s) =
         [Running, Crashed, Restarting, Running, Crashed, Restarting, Running, Crashed, Restarting,
          Running, Crashed, Restarting, Running, Crashed, Max_restarts]
     \<and> last (effects s) = Emit MaxRestarts
     \<and> length (getCrashLog s) = 5
     \<and> backoffMs s = 16000
     \<and> restartTimer s = None"
proof -
  have "fuel = Suc (Suc (Suc (Suc (Suc (fuel - 5)))))"
    using assms(2) by simp
  then obtain k where fuel: "fuel = Suc (Suc (Suc (Suc (Suc k))))" ..
  note cf = scenarioConfig_fields
  define s0 where "s0 = newWatchdogManager scenarioConfig"
  have f0: "config s0 = scenarioConfig" "status s0 \<noteq> Running" "recentCrashTimestamps s0 = []"
    "backoffMs s0 = 1000" "crashLog s0 = []" "effects s0 = []" "restartTimer s0 = None"
    by (simp_all add: s0_def newWatchdogManager_def)
  define c1 where "c1 = crashCycle t0 p s0"
  define s1 where "s1 = c1\<lparr>restartTimer := None\<rparr>"
  have w1: "int (length (withinWindow (restartWindowMs (config s0)) (t0 + 500)
                           (recentCrashTimestamps s0 @ [t0 + 500]))) < maxRestarts (config s0)"
    by (simp add: f0 cf withinWindow_def)
  have p0: "mode (config s0) = Dev" "targetDevPath (config s0) \<noteq> []" "status s0 \<noteq> Running"
    "0 < t0" "autoRestart (config s0)"
    using assms(1) by (simp_all add: f0 cf)
  note r1 = crashCycle_restart[OF p0 w1, of p, folded c1_def]
  note g1 = crashCycle_frame[OF p0(1-4), of p, folded c1_def]
  have f1: "config s1 = scenarioConfig" "status s1 \<noteq> Running"
    "recentCrashTimestamps s1 = [t0 + 500]" "backoffMs s1 = 2000" "length (crashLog s1) = 1"
    "restartTimer s1 = None" "spawnCount (effects s1) = 1"
    "scheduledDelays (effects s1) = [1000]" "length (crashEvents (effects s1)) = 1"
    "statusChanges (effects s1) = [Running, Crashed, Restarting]"
    using r1 g1 by (simp_all add: s1_def f0 cf withinWindow_def trace_defs)
  have l1: "crashLoop fuel t0 p s0 = crashLoop (Suc (Suc (Suc (Suc k)))) (t0 + 1500) (p + 1) s1"
    using crashLoop_restart[OF r1(1)[unfolded c1_def] r1(2)[unfolded c1_def],
        of "Suc (Suc (Suc (Suc k)))"]
    by (simp add: f0 fuel s1_def c1_def add.commute del: crashLoop.simps)
  define c2 where "c2 = crashCycle (t0 + 1500) (p + 1) s1"
  define s2 where "s2 = c2\<lparr>restartTimer := None\<rparr>"
  have p1: "mode (config s1) = Dev" "targetDevPath (config s1) \<noteq> []" "status s1 \<noteq> Running"
    "0 < t0 + 1500" "autoRestart (config s1)"
    using assms(1) by (simp_all add: f1 cf)
  have w2: "int (length (withinWindow (restartWindowMs (config s1)) (t0 + 1500 + 500)
                           (recentCrashTimestamps s1 @ [t0 + 1500 + 500]))) < maxRestarts (config s1)"
    by (simp add: f1 cf withinWindow_def)
  note r2 = crashCycle_restart[OF p1 w2, of "p + 1", folded c2_def]
  note g2 = crashCycle_frame[OF p1(1-4), of "p + 1", folded c2_def]
  have f2: "config s2 = scenarioConfig" "status s2 \<noteq> Running"
    "recentCrashTimestamps s2 = [t0 + 500, t0 + 2000]" "backoffMs s2 = 4000"
    "length (crashLog s2) = 2"
    "restartTimer s2 = None" "spawnCount (effects s2) = 2"
    "scheduledDelays (effects s2) = [1000, 2000]" "length (crashEvents (effects s2)) = 2"
    "statusChanges (effects s2) = [Running, Crashed, Restarting, Running, Crashed, Restarting]"
    using r2 g2 by (simp_all add: s2_def f1 cf withinWindow_def)
  have l2: "crashLoop (Suc (Suc (Suc (Suc k)))) (t0 + 1500) (p + 1) s1
      = crashLoop (Suc (Suc (Suc k))) (t0 + 4000) (p + 2) s2"
    using crashLoop_restart[OF r2(1)[unfolded c2_def] r2(2)[unfolded c2_def],
        of "Suc (Suc (Suc k))"]
    by (simp add: f1 s2_def c2_def add.commute del: crashLoop.simps)
  define c3 where "c3 = crashCycle (t0 + 4000) (p + 2) s2"
  define s3 where "s3 = c3\<lparr>restartTimer := None\<rparr>"
  have p2: "mode (config s2) = Dev" "targetDevPath (config s2) \<noteq> []" "status s2 \<noteq> Running"
    "0 < t0 + 4000" "autoRestart (config s2)"
    using assms(1) by (simp_all add: f2 cf)
  have w3: "int (length (withinWindow (restartWindowMs (config s2)) (t0 + 4000 + 500)
                           (recentCrashTimestamps s2 @ [t0 + 4000 + 500]))) < maxRestarts (config s2)"
    by (simp add: f2 cf withinWindow_def)
  note r3 = crashCycle_restart[OF p2 w3, of "p + 2", folded c3_def]
  note g3 = crashCycle_frame[OF p2(1-4), of "p + 2", folded c3_def]
  have f3: "config s3 = scenarioConfig" "status s3 \<noteq> Running"
    "recentCrashTimestamps s3 = [t0 + 500, t0 + 2000, t0 + 4500]" "backoffMs s3 = 8000"
    "length (crashLog s3) = 3"
    "restartTimer s3 = None" "spawnCount (effects s3) = 3"
    "scheduledDelays (effects s3) = [1000, 2000, 4000]" "length (crashEvents (effects s3)) = 3"
    "statusChanges (effects s3) = [Running, Crashed, Restarting, Running, Crashed, Restarting,
       Running, Crashed, Restarting]"
    using r3 g3 by (simp_all add: s3_def f2 cf withinWindow_def)
  have l3: "crashLoop (Suc (Suc (Suc k))) (t0 + 4000) (p + 2) s2
      = crashLoop (Suc (Suc k)) (t0 + 8500) (p + 3) s3"
    using crashLoop_restart[OF r3(1)[unfolded c3_def] r3(2)[unfolded c3_def],
        of "Suc (Suc k)"]
    by (simp add: f2 s3_def c3_def add.commute del: crashLoop.simps)
  define c4 where "c4 = crashCycle (t0 + 8500) (p + 3) s3"
  define s4 where "s4 = c4\<lparr>restartTimer := None\<rparr>"
  have p3: "mode (config s3) = Dev" "targetDevPath (config s3) \<noteq> []" "status s3 \<noteq> Running"
    "0 < t0 + 8500" "autoRestart (config s3)"
    using assms(1) by (simp_all add: f3 cf)
  have w4: "int (length (withinWindow (restartWindowMs (config s3)) (t0 + 8500 + 500)
                           (recentCrashTimestamps s3 @ [t0 + 8500 + 500]))) < maxRestarts (config s3)"
    by (simp add: f3 cf withinWindow_def)
  note r4 = crashCycle_restart[OF p3 w4, of "p + 3", folded c4_def]
  note g4 = crashCycle_frame[OF p3(1-4), of "p + 3", folded c4_def]
  have f4: "config s4 = scenarioConfig" "status s4 \<noteq> Running"
    "recentCrashTimestamps s4 = [t0 + 500, t0 + 2000, t0 + 4500, t0 + 9000]" "backoffMs s4 = 16000"
    "length (crashLog s4) = 4"
    "restartTimer s4 = None" "spawnCount (effects s4) = 4"
    "scheduledDelays (effects s4) = [1000, 2000, 4000, 8000]"
    "length (crashEvents (effects s4)) = 4"
    "statusChanges (effects s4) = [Running, Crashed, Restarting, Running, Crashed, Restarting,
       Running, Crashed, Restarting, Running, Crashed, Restarting]"
    using r4 g4 by (simp_all add: s4_def f3 cf withinWindow_def)
  have l4: "crashLoop (Suc (Suc k)) (t0 + 8500) (p + 3) s3
      = crashLoop (Suc k) (t0 + 17000) (p + 4) s4"
    using crashLoop_restart[OF r4(1)[unfolded c4_def] r4(2)[unfolded c4_def],
        of "Suc k"]
    by (simp add: f3 s4_def c4_def add.commute del: crashLoop.simps)
  define c5 where "c5 = crashCycle (t0 + 17000) (p + 4) s4"
  have p4: "mode (config s4) = Dev" "targetDevPath (config s4) \<noteq> []" "status s4 \<noteq> Running"
    "0 < t0 + 17000" "autoRestart (config s4)"
    using assms(1) by (simp_all add: f4 cf)
  have w5: "maxRestarts (config s4)
      \<le> int (length (withinWindow (restartWindowMs (config s4)) (t0 + 17000 + 500)
                           (recentCrashTimestamps s4 @ [t0 + 17000 + 500])))"
    by (simp add: f4 cf withinWindow_def)
  note r5 = crashCycle_limit[OF p4 w5, of "p + 4", folded c5_def]
  note g5 = crashCycle_frame[OF p4(1-4), of "p + 4", folded c5_def]
  have l5: "crashLoop (Suc k) (t0 + 17000) (p + 4) s4 = Some c5"
    using crashLoop_limit[of "t0 + 17000" "p + 4" s4 k] r5(2)[unfolded c5_def]
    by (simp add: f4 c5_def add.commute del: crashLoop.simps)
  have "crashLoop fuel t0 p (newWatchdogManager scenarioConfig) = Some c5"
    using l1 l2 l3 l4 l5 by (simp add: s0_def)
  moreover have "status c5 = Max_restarts" "spawnCount (effects c5) = 5"
    "scheduledDelays (effects c5) = [1000, 2000, 4000, 8000]"
    "length (crashEvents (effects c5)) = 5"
    "statusChanges (effects c5) =
         [Running, Crashed, Restarting, Running, Crashed, Restarting, Running, Crashed, Restarting,
          Running, Crashed, Restarting, Running, Crashed, Max_restarts]"
    "last (effects c5) = Emit MaxRestarts" "length (getCrashLog c5) = 5"
    "backoffMs c5 = 16000" "restartTimer c5 = None"
    using r5 g5 by (simp_all add: f4 getCrashLog_def)
  ultimately show ?thesis by blast
qed


text \<open>
  Claim C1 as stated fails in the delays: five spawns are separated by four delays, and
  the supervisor never arms a timer of 16000 ms.
\<close>

theorem five_delays_counterexample:
  "fiveFastCrashes \<noteq> None
   \<and> spawnCount (effects (the fiveFastCrashes)) = 5
   \<and> scheduledDelays (effects (the fiveFastCrashes)) = [1000, 2000, 4000, 8000]
   \<and> scheduledDelays (effects (the fiveFastCrashes)) \<noteq> [1000, 2000, 4000, 8000, 16000]
   \<and> 16000 \<notin> set (scheduledDelays (effects (the fiveFastCrashes)))"
  unfolding fiveFastCrashes_def scenarioConfig_def by code_simp

theorem five_fast_crashes_witness:
  "(0::int) < 1000000 \<and> (5::nat) \<le> 5
   \<and> status (the fiveFastCrashes) = Max_restarts
   \<and> spawnCount (effects (the fiveFastCrashes)) = 5
   \<and> scheduledDelays (effects (the fiveFastCrashes)) = [1000, 2000, 4000, 8000]
   \<and> length (crashEvents (effects (the fiveFastCrashes))) = 5
   \<and> last (effects (the fiveFastCrashes)) = Emit MaxRestarts
   \<and> length (getCrashLog (the fiveFastCrashes)) = 5
   \<and> backoffMs (the fiveFastCrashes) = 16000"
proof -
  have h: "(0::int) < 1000000" "(5::nat) \<le> 5" by simp_all
  from five_fast_crashes[OF h, of 4242] obtain s where
    "crashLoop 5 1000000 4242 (newWatchdogManager scenarioConfig) = Some s"
    "status s = Max_restarts" "spawnCount (effects s) = 5"
    "scheduledDelays (effects s) = [1000, 2000, 4000, 8000]"
    "length (crashEvents (effects s)) = 5" "last (effects s) = Emit MaxRestarts"
    "length (getCrashLog s) = 5" "backoffMs s = 16000"
    by blast
  then show ?thesis by (simp add: fiveFastCrashes_def)
qed

section \<open>The start time and the crash window over runs\<close>

text \<open>What each input does to \<open>startTime\<close> and to the list of recent crashes.\<close>

lemma misc_frame:
  "startTime (updateConfig u s) = startTime s"
  "recentCrashTimestamps (updateConfig u s) = recentCrashTimestamps s"
  "recentCrashTimestamps (clearCrashLog s) = []"
  "recentCrashTimestamps (onStdoutData text s) = recentCrashTimestamps s"
  "recentCrashTimestamps (onStderrData text s) = recentCrashTimestamps s"
  "recentCrashTimestamps (onChildError message s) = recentCrashTimestamps s"
  "recentCrashTimestamps (onHealthCheck ok now s) = recentCrashTimestamps s"
  "recentCrashTimestamps (onResourceSample sample s) = recentCrashTimestamps s"
  "recentCrashTimestamps (initialize savedConfig savedCrashes s) = recentCrashTimestamps s"
  "recentCrashTimestamps (onError s) = recentCrashTimestamps s"
  by (simp_all add: updateConfig_def clearCrashLog_def onStdoutData_def onStderrData_def
      onChildError_def onHealthCheck_def onResourceSample_def initialize_def onError_def
      prim_eqs Let_def split: option.splits)

lemma step_startTime:
  "startTime (step s i) = (case startedAt s i of None \<Rightarrow> startTime s | Some t \<Rightarrow> t)"
proof (cases i)
  case (CallStart modeArg now spawnPid)
  then show ?thesis by (simp add: start_running start_startTime)
next
  case (CallRestart stopTime exitSeen now spawnPid)
  then show ?thesis by (simp add: restart_fields)
next
  case (RestartTimerFires now spawnPid)
  then show ?thesis
    by (simp add: onRestartTimer_def start_startTime)
       (simp add: start_def)
qed (simp_all add: stop_fields exit_frame misc_fields)

lemma run_startTime: "startTime (run s inputs) = lastStart (startTime s) s inputs"
  unfolding run_def by (induction inputs arbitrary: s) (simp_all add: step_startTime)

lemma step_window: "recentCrashTimestamps (step s i) = windowAfter s i"
proof (cases i)
  case (ChildExit code signal now)
  then show ?thesis by (simp add: exit_normal exit_crash)
next
  case (RestartTimerFires now spawnPid)
  then show ?thesis by (simp add: onRestartTimer_def start_frame)
qed (simp_all add: start_frame stop_fields restart_fields misc_frame)

lemma getStatus_uptime: "si_uptimeMs (getStatus now s) = uptimeAt now s"
  by (simp add: getStatus_def uptimeAt_def)

lemma start_snapshot:
  assumes "status s \<noteq> Running"
  shows "map si_status (take 1 (statusInfos (effectsSince s (snd (start modeArg now spawnPid s)))))
           = [Running]"
    and "map si_uptimeMs (take 1 (statusInfos (effectsSince s (snd (start modeArg now spawnPid s)))))
           = [uptimeAt now s]"
  using assms
  by (cases modeArg; cases "launchMode modeArg s";
      simp add: start_defs effectsSince_def statusInfos_def getStatus_status getStatus_uptime
        uptimeAt_def)+

text \<open>
  Claim C2 as stated fails. A supervisor started at 1000000 and stopped at 1002000
  reports, at 1005000, status stopped and an uptime of 5000 ms, not 0. And the snapshots
  that \<open>start()\<close> publishes with status running are taken before \<open>startTime\<close> is
  assigned: in a run with one crash and a restart at 1001500 they carry an uptime of 0
  and of 1500 ms, the age of the run before.
\<close>

theorem uptime_after_stop_counterexample:
  "si_status (getStatus 1005000 stoppedAfterRun) = Stopped
   \<and> si_uptimeMs (getStatus 1005000 stoppedAfterRun) = 5000
   \<and> map si_status (statusInfos (effects recoveredManager))
       = [Running, Crashed, Restarting, Running]
   \<and> map si_uptimeMs (statusInfos (effects recoveredManager)) = [0, 500, 500, 1500]
   \<and> startTime recoveredManager = 1001500"
  unfolding stoppedAfterRun_def recoveredManager_def scenarioConfig_def by code_simp

text \<open>
  Claim C2, as the program has it. After any run, with a clock that shows positive
  times, \<open>startTime\<close> is the clock reading of the last start that took effect, and 0
  when there was none. The snapshot of \<open>getStatus()\<close> has \<open>uptimeMs = now - startTime\<close>
  while the status is running, and equally in every later status: \<open>stop()\<close> and the
  exit of the child leave the uptime that \<open>getStatus()\<close> reports as it was. \<open>uptimeMs\<close>
  is 0 only while no start has taken effect, as in status idle. The snapshot that
  \<open>start()\<close> itself publishes with status running is taken before \<open>startTime\<close> is
  assigned: it carries the uptime as of the start before, 0 at the first start.
\<close>

theorem uptime_follows_startTime:
  "clockPositive inputs \<Longrightarrow>
   (status (run (newWatchdogManager cfg) inputs) = Running \<longrightarrow>
      si_uptimeMs (getStatus now (run (newWatchdogManager cfg) inputs))
        = now - startTime (run (newWatchdogManager cfg) inputs))
   \<and> (status (run (newWatchdogManager cfg) inputs) = Idle \<longrightarrow>
      si_uptimeMs (getStatus now (run (newWatchdogManager cfg) inputs)) = 0)
   \<and> si_uptimeMs (getStatus now (run (newWatchdogManager cfg) inputs))
        = (if 0 < startTime (run (newWatchdogManager cfg) inputs)
           then now - startTime (run (newWatchdogManager cfg) inputs) else 0)
   \<and> startTime (run (newWatchdogManager cfg) inputs)
        = lastStart 0 (newWatchdogManager cfg) inputs
   \<and> si_uptimeMs (getStatus now (stop t s)) = si_uptimeMs (getStatus now s)
   \<and> si_uptimeMs (getStatus now (onProcessExit code signal t s)) = si_uptimeMs (getStatus now s)
   \<and> (status s \<noteq> Running \<and> 0 < t \<longrightarrow>
        si_uptimeMs (getStatus now (snd (start modeArg t spawnPid s))) = now - t)
   \<and> (status s \<noteq> Running \<longrightarrow>
        map si_status (take 1 (statusInfos (effectsSince s (snd (start modeArg t spawnPid s)))))
          = [Running]
        \<and> map si_uptimeMs (take 1 (statusInfos (effectsSince s (snd (start modeArg t spawnPid s)))))
          = [uptimeAt t s])"
proof -
  assume "clockPositive inputs"
  moreover have "upInv (newWatchdogManager cfg)"
    by (simp add: upInv_def newWatchdogManager_def)
  ultimately have inv: "upInv (run (newWatchdogManager cfg) inputs)" by (rule run_upInv)
  have last: "startTime (run (newWatchdogManager cfg) inputs)
        = lastStart 0 (newWatchdogManager cfg) inputs"
    using run_startTime[of "newWatchdogManager cfg" inputs] by (simp add: newWatchdogManager_def)
  have keep: "si_uptimeMs (getStatus now (stop t s)) = si_uptimeMs (getStatus now s)"
    "si_uptimeMs (getStatus now (onProcessExit code signal t s)) = si_uptimeMs (getStatus now s)"
    by (simp_all add: getStatus_uptime uptimeAt_def stop_fields exit_frame)
  have started: "status s \<noteq> Running \<and> 0 < t \<longrightarrow>
        si_uptimeMs (getStatus now (snd (start modeArg t spawnPid s))) = now - t"
    by (simp add: getStatus_uptime uptimeAt_def start_startTime)
  have snap: "status s \<noteq> Running \<longrightarrow>
        map si_status (take 1 (statusInfos (effectsSince s (snd (start modeArg t spawnPid s)))))
          = [Running]
        \<and> map si_uptimeMs (take 1 (statusInfos (effectsSince s (snd (start modeArg t spawnPid s)))))
          = [uptimeAt t s]"
    using start_snapshot[of s modeArg t spawnPid] by blast
  have now: "(status (run (newWatchdogManager cfg) inputs) = Running \<longrightarrow>
      si_uptimeMs (getStatus now (run (newWatchdogManager cfg) inputs))
        = now - startTime (run (newWatchdogManager cfg) inputs))
   \<and> (status (run (newWatchdogManager cfg) inputs) = Idle \<longrightarrow>
      si_uptimeMs (getStatus now (run (newWatchdogManager cfg) inputs)) = 0)
   \<and> si_uptimeMs (getStatus now (run (newWatchdogManager cfg) inputs))
        = (if 0 < startTime (run (newWatchdogManager cfg) inputs)
           then now - startTime (run (newWatchdogManager cfg) inputs) else 0)"
    using inv by (simp add: upInv_def getStatus_def)
  from now last keep started snap show ?thesis by (intro conjI) (erule conjE | assumption)+
qed

theorem uptime_follows_startTime_witness:
  "clockPositive [CallStart None 1000000 (Some 4242)]
   \<and> status (run (newWatchdogManager scenarioConfig) [CallStart None 1000000 (Some 4242)]) = Running
   \<and> si_uptimeMs (getStatus 1005000
         (run (newWatchdogManager scenarioConfig) [CallStart None 1000000 (Some 4242)])) = 5000
   \<and> clockPositive []
   \<and> status (run (newWatchdogManager scenarioConfig) []) = Idle
   \<and> si_uptimeMs (getStatus 1005000 (run (newWatchdogManager scenarioConfig) [])) = 0
   \<and> clockPositive [CallStart None 1000000 (Some 4242), CallStop 1002000]
   \<and> status stoppedAfterRun = Stopped
   \<and> lastStart 0 (newWatchdogManager scenarioConfig)
         [CallStart None 1000000 (Some 4242), CallStop 1002000] = 1000000
   \<and> startTime stoppedAfterRun = 1000000
   \<and> si_uptimeMs (getStatus 1005000 stoppedAfterRun) = 5000
   \<and> status stoppedAfterRun \<noteq> Running \<and> (0::int) < 1003000
   \<and> si_uptimeMs (getStatus 1005000 (snd (start None 1003000 (Some 4243) stoppedAfterRun))) = 2000
   \<and> map si_uptimeMs (take 1 (statusInfos (effectsSince stoppedAfterRun
         (snd (start None 1003000 (Some 4243) stoppedAfterRun))))) = [3000]"
proof -
  have pos: "clockPositive [CallStart None 1000000 (Some 4242)]" "clockPositive []"
    "clockPositive [CallStart None 1000000 (Some 4242), CallStop 1002000]"
    by (simp_all add: clockPositive_def)
  have st: "status (run (newWatchdogManager scenarioConfig) [CallStart None 1000000 (Some 4242)])
      = Running"
    "startTime (run (newWatchdogManager scenarioConfig) [CallStart None 1000000 (Some 4242)])
      = 1000000"
    "status (run (newWatchdogManager scenarioConfig) []) = Idle"
    "status stoppedAfterRun = Stopped"
    "lastStart 0 (newWatchdogManager scenarioConfig)
         [CallStart None 1000000 (Some 4242), CallStop 1002000] = 1000000"
    "uptimeAt 1003000 stoppedAfterRun = 3000"
    unfolding stoppedAfterRun_def scenarioConfig_def by code_simp+
  show ?thesis
    using pos st
      uptime_follows_startTime[OF pos(1), where cfg = scenarioConfig and now = 1005000
        and s = stoppedAfterRun and t = 1003000 and modeArg = None and spawnPid = "Some 4243"]
      uptime_follows_startTime[OF pos(2), where cfg = scenarioConfig and now = 1005000
        and s = stoppedAfterRun and t = 1003000 and modeArg = None and spawnPid = "Some 4243"]
      uptime_follows_startTime[OF pos(3), where cfg = scenarioConfig and now = 1005000
        and s = stoppedAfterRun and t = 1003000 and modeArg = None and spawnPid = "Some 4243"]
    by (simp add: stoppedAfterRun_def)
qed

text \<open>
  Claim C3, as the program has it. At every crash the exit handler adds the time of the
  crash and keeps the timestamps within the last \<open>restartWindowMs\<close>; every status
  snapshot it emits reports their number. Nothing else discards by age: an orderly
  exit, \<open>stop()\<close>, \<open>start()\<close> and every other input but two leave the list as it is,
  \<open>restart()\<close> and \<open>clearCrashLog()\<close> empty it, and \<open>getStatus()\<close> reports the length of
  the list whatever the time of the query.
\<close>

theorem recent_crashes_counted_at_crash:
  "(code \<noteq> Some 0 \<and> status s \<noteq> Stopped \<longrightarrow>
      recentCrashTimestamps (onProcessExit code signal now s)
        = withinWindow (restartWindowMs (config s)) now (recentCrashTimestamps s @ [now])
      \<and> list_all (\<lambda>info. si_recentCrashes info
                     = length (withinWindow (restartWindowMs (config s)) now
                                 (recentCrashTimestamps s @ [now])))
           (statusInfos (effectsSince s (onProcessExit code signal now s))))
   \<and> si_recentCrashes (getStatus query s) = length (recentCrashTimestamps s)
   \<and> (code = Some 0 \<or> status s = Stopped \<longrightarrow>
        recentCrashTimestamps (onProcessExit code signal now s) = recentCrashTimestamps s)
   \<and> recentCrashTimestamps (stop now s) = recentCrashTimestamps s
   \<and> recentCrashTimestamps (snd (start modeArg now spawnPid s)) = recentCrashTimestamps s
   \<and> recentCrashTimestamps (snd (restart stopTime exitSeen now spawnPid s)) = []
   \<and> recentCrashTimestamps (clearCrashLog s) = []
   \<and> recentCrashTimestamps (step s i) = windowAfter s i
   \<and> si_recentCrashes (getStatus query (step s i)) = length (windowAfter s i)"
proof (intro conjI impI)
  assume a: "code \<noteq> Some 0 \<and> status s \<noteq> Stopped"
  then show "recentCrashTimestamps (onProcessExit code signal now s)
        = withinWindow (restartWindowMs (config s)) now (recentCrashTimestamps s @ [now])"
    by (simp add: exit_crash)
  show "list_all (\<lambda>info. si_recentCrashes info
                     = length (withinWindow (restartWindowMs (config s)) now
                                 (recentCrashTimestamps s @ [now])))
           (statusInfos (effectsSince s (onProcessExit code signal now s)))"
    using a
    by (simp add: exit_crash_effects statusInfos_def getStatus_recentCrashes recordCrash_fields
        afterExit_eq)
next
  show "si_recentCrashes (getStatus query s) = length (recentCrashTimestamps s)"
    by (rule getStatus_recentCrashes)
next
  assume "code = Some 0 \<or> status s = Stopped"
  then show "recentCrashTimestamps (onProcessExit code signal now s) = recentCrashTimestamps s"
    by (rule exit_normal)
next
  show "recentCrashTimestamps (stop now s) = recentCrashTimestamps s"
    by (rule stop_fields)
next
  show "recentCrashTimestamps (snd (start modeArg now spawnPid s)) = recentCrashTimestamps s"
    by (rule start_frame)
next
  show "recentCrashTimestamps (snd (restart stopTime exitSeen now spawnPid s)) = []"
    by (rule restart_fields)
next
  show "recentCrashTimestamps (clearCrashLog s) = []"
    by (rule misc_frame)
next
  show "recentCrashTimestamps (step s i) = windowAfter s i"
    by (rule step_window)
next
  show "si_recentCrashes (getStatus query (step s i)) = length (windowAfter s i)"
    by (simp add: getStatus_recentCrashes step_window)
qed

theorem recent_crashes_counted_at_crash_witness:
  "Some 1 \<noteq> Some (0::int) \<and> status runningManager \<noteq> Stopped
   \<and> recentCrashTimestamps (onProcessExit (Some 1) None 1000500 runningManager) = [1000500]
   \<and> map si_recentCrashes
        (statusInfos (effectsSince runningManager
                        (onProcessExit (Some 1) None 1000500 runningManager))) = [1, 1]
   \<and> si_recentCrashes (getStatus 1400000 runningManager) = 0
   \<and> recentCrashTimestamps recoveredManager = [1000500]
   \<and> si_recentCrashes (getStatus 1400000 (step recoveredManager (CallStop 1399000))) = 1
   \<and> (Some 0 = Some (0::int) \<or> status recoveredManager = Stopped)
   \<and> recentCrashTimestamps (onProcessExit (Some 0) None 1399000 recoveredManager) = [1000500]
   \<and> recentCrashTimestamps (snd (restart 1399000 None 1399500 (Some 4244) recoveredManager)) = []"
proof -
  have h: "Some 1 \<noteq> Some (0::int) \<and> status runningManager \<noteq> Stopped"
    unfolding runningManager_def scenarioConfig_def by code_simp
  have v: "recentCrashTimestamps (onProcessExit (Some 1) None 1000500 runningManager) = [1000500]"
     "map si_recentCrashes
        (statusInfos (effectsSince runningManager
                        (onProcessExit (Some 1) None 1000500 runningManager))) = [1, 1]"
     "si_recentCrashes (getStatus 1400000 runningManager) = 0"
    unfolding runningManager_def scenarioConfig_def by code_simp+
  have w: "recentCrashTimestamps recoveredManager = [1000500]"
    unfolding recoveredManager_def scenarioConfig_def by code_simp
  show ?thesis
    using h v w
      recent_crashes_counted_at_crash[where code = "Some 1" and s = runningManager
        and signal = None and now = 1000500 and query = 1400000]
      recent_crashes_counted_at_crash[where code = "Some 0" and s = recoveredManager
        and signal = None and now = 1399000 and query = 1400000 and i = "CallStop 1399000"
        and stopTime = 1399000 and exitSeen = None and spawnPid = "Some 4244"]
      recent_crashes_counted_at_crash[where code = "Some 0" and s = recoveredManager
        and signal = None and now = 1399500 and query = 1400000 and i = "CallStop 1399000"
        and stopTime = 1399000 and exitSeen = None and spawnPid = "Some 4244"]
    by simp
qed

end
